theory Spec2Isabelle
  imports Main "HOL-Library.AList"
begin

section \<open>PeerTube uploader (upload-multi.py)\<close>

text \<open>
  A shallow embedding of the class \<open>PeerTubeUploader\<close>. The remote service, the file
  system and the console are made explicit: every HTTP request the client issues is
  appended to a log, and the service answers as a function of that log, so that a
  server with state of its own is covered. Python exceptions are values of the type
  \<open>error\<close>; an operation returns its result together with the state it leaves behind,
  because the attributes assigned before a \<open>raise\<close> stay assigned.
\<close>

subsection \<open>JSON documents and the Python operations used on them\<close>

text \<open>
  What \<open>response.json()\<close> returns. Numbers are the integers (the identifiers of the
  API); an object lists its members in document order, and a repeated member name
  takes its last value, as in Python's \<open>json\<close> module. \<open>JNull\<close> is Python's \<open>None\<close>.
\<close>

datatype json =
    JNull
  | JBool bool
  | JNum int
  | JStr string
  | JArr "json list"
  | JObj "(string \<times> json) list"

text \<open>The keys of a Python \<open>dict\<close>: hashable values, with \<open>True == 1\<close> and \<open>False == 0\<close>.\<close>

datatype key = KNone | KNum int | KStr string

record response =
  status_code :: nat
  body_text :: string
  json_body :: "json option"  \<comment> \<open>\<open>None\<close>: the body is not a JSON document\<close>

datatype error =
    RequestFailed          \<comment> \<open>a \<open>RequestException\<close> raised by \<open>requests.get/post\<close> itself: no response\<close>
  | HTTPError response     \<comment> \<open>raised by \<open>raise_for_status\<close>, carries the response\<close>
  | JSONDecodeError        \<comment> \<open>raised by \<open>response.json()\<close>\<close>
  | KeyError
  | TypeError
  | IndexError
  | OSError                \<comment> \<open>raised by \<open>open\<close> or \<open>iterdir\<close>\<close>
  | NoVideoChannels        \<comment> \<open>\<open>Exception("No video channels found")\<close>\<close>
  | FormatNotSupported     \<comment> \<open>\<open>Exception("Video format not supported. ...")\<close>\<close>
  | FileTooLarge           \<comment> \<open>\<open>Exception("Video file too large. Please check your quota.")\<close>\<close>
  | FileUnreadable         \<comment> \<open>\<open>Exception("Video file unreadable. Please check the file.")\<close>\<close>

definition bindE :: "error + 'a \<Rightarrow> ('a \<Rightarrow> error + 'b) \<Rightarrow> error + 'b" where
  "bindE r f = (case r of Inl e \<Rightarrow> Inl e | Inr x \<Rightarrow> f x)"

text \<open>Truth value of a Python object: \<open>not x\<close> is \<open>\<not> truthy x\<close>.\<close>

fun truthy :: "json \<Rightarrow> bool" where
  "truthy JNull = False"
| "truthy (JBool b) = b"
| "truthy (JNum n) = (n \<noteq> 0)"
| "truthy (JStr s) = (s \<noteq> [])"
| "truthy (JArr xs) = (xs \<noteq> [])"
| "truthy (JObj kvs) = (kvs \<noteq> [])"

text \<open>\<open>d[k]\<close> for a string \<open>k\<close>.\<close>

fun py_getitem :: "json \<Rightarrow> string \<Rightarrow> error + json" where
  "py_getitem (JObj kvs) k = (case map_of (rev kvs) k of None \<Rightarrow> Inl KeyError | Some v \<Rightarrow> Inr v)"
| "py_getitem _ k = Inl TypeError"

text \<open>\<open>x[0]\<close>.\<close>

fun py_getitem0 :: "json \<Rightarrow> error + json" where
  "py_getitem0 (JArr []) = Inl IndexError"
| "py_getitem0 (JArr (x # xs)) = Inr x"
| "py_getitem0 (JStr []) = Inl IndexError"
| "py_getitem0 (JStr (c # cs)) = Inr (JStr [c])"
| "py_getitem0 (JObj kvs) = Inl KeyError"
| "py_getitem0 _ = Inl TypeError"

fun contains_str :: "string \<Rightarrow> string \<Rightarrow> bool" where
  "contains_str k [] = (k = [])"
| "contains_str k (c # cs) = (take (length k) (c # cs) = k \<or> contains_str k cs)"

text \<open>\<open>k in x\<close> for a string \<open>k\<close>.\<close>

fun py_contains :: "string \<Rightarrow> json \<Rightarrow> error + bool" where
  "py_contains k (JObj kvs) = Inr (k \<in> set (map fst kvs))"
| "py_contains k (JArr xs) = Inr (JStr k \<in> set xs)"
| "py_contains k (JStr s) = Inr (contains_str k s)"
| "py_contains k _ = Inl TypeError"

text \<open>\<open>len(x)\<close>.\<close>

fun py_len :: "json \<Rightarrow> error + nat" where
  "py_len (JArr xs) = Inr (length xs)"
| "py_len (JStr s) = Inr (length s)"
| "py_len (JObj kvs) = Inr (length (remdups (map fst kvs)))"
| "py_len _ = Inl TypeError"

text \<open>The items \<open>for c in x\<close> runs over.\<close>

fun py_iter :: "json \<Rightarrow> error + json list" where
  "py_iter (JArr xs) = Inr xs"
| "py_iter (JStr s) = Inr (map (\<lambda>c. JStr [c]) s)"
| "py_iter (JObj kvs) = Inr (map JStr (rev (remdups (rev (map fst kvs)))))"
| "py_iter _ = Inl TypeError"

text \<open>Using a value as a dictionary key: lists and dictionaries are unhashable.\<close>

fun py_hash :: "json \<Rightarrow> error + key" where
  "py_hash JNull = Inr KNone"
| "py_hash (JBool b) = Inr (KNum (if b then 1 else 0))"
| "py_hash (JNum n) = Inr (KNum n)"
| "py_hash (JStr s) = Inr (KStr s)"
| "py_hash _ = Inl TypeError"

subsection \<open>Requests, the environment and the state\<close>

datatype http_method = GET | POST

datatype payload =
    NoBody
  | Form "(string \<times> json) list"                \<comment> \<open>\<open>data=\<close>\<close>
  | JsonBody "(string \<times> json) list"            \<comment> \<open>\<open>json=\<close>\<close>
  | Multipart "(string \<times> json) list" string string
      \<comment> \<open>\<open>data=\<close> and \<open>files=\<close>: the fields, the file name, the path of the open handle\<close>

record request =
  meth :: http_method
  url :: string
  bearer :: "json option"  \<comment> \<open>\<open>Some t\<close>: the header \<open>Authorization: Bearer {t}\<close>\<close>
  payload :: payload

datatype outcome = Raised | Response response

text \<open>
  The world outside the process. \<open>http env rs\<close> is what the last request of \<open>rs\<close>
  comes back with, \<open>rs\<close> being all the requests issued so far, oldest first.
\<close>

record env =
  http :: "request list \<Rightarrow> outcome"
  fs_open :: "string \<Rightarrow> bool"                   \<comment> \<open>\<open>open(path, 'rb')\<close> succeeds\<close>
  iterdir :: "string \<Rightarrow> string list option"     \<comment> \<open>the children of a directory, in listing order\<close>

record upload_args =
  video_path :: string
  title :: "string option"
  description :: "string option"
  privacy :: int
  channel_name :: "string option"
  wait_transcoding :: bool

datatype msg =
    AvailableChannels "(key \<times> json) list"
  | CreatedChannel string
  | ChannelMightExist error
  | Uploading string
  | SuccessfullyUploaded string
  | UploadFailed error
  | ServerResponse string
  | ErrorUploading string error

text \<open>
  The attributes of the object (\<open>host\<close> to \<open>channels\<close>), followed by the effects of the
  run so far: the requests issued, the lines printed, the paths \<open>open\<close> was called
  on with success, the seconds slept, and a history of the calls of \<open>upload_video\<close>
  with what each came back with. When the runtime releases an opened file is not
  part of the state.
\<close>

record state =
  host :: string
  username :: string
  password :: string
  token :: json
  channel_id :: json
  channels :: "(key \<times> json) list"
  sent :: "request list"
  printed :: "msg list"
  opened_files :: "string list"
  slept :: nat
  calls :: "(upload_args \<times> (error + json)) list"

fun rstrip_slash :: "string \<Rightarrow> string" where
  "rstrip_slash s = rev (dropWhile (\<lambda>c. c = CHR ''/'') (rev s))"

definition init :: "string \<Rightarrow> string \<Rightarrow> string \<Rightarrow> state" where
  "init h u p =
     \<lparr>host = rstrip_slash h, username = u, password = p,
      token = JNull, channel_id = JNull, channels = [],
      sent = [], printed = [], opened_files = [], slept = 0, calls = []\<rparr>"

definition print :: "msg \<Rightarrow> state \<Rightarrow> state" where
  "print m s = s\<lparr>printed := printed s @ [m]\<rparr>"

text \<open>\<open>requests.get\<close> and \<open>requests.post\<close>: the request goes out, then the answer arrives.\<close>

definition send :: "env \<Rightarrow> request \<Rightarrow> state \<Rightarrow> (error + response) \<times> state" where
  "send env rq s =
     (let s' = s\<lparr>sent := sent s @ [rq]\<rparr>
      in case http env (sent s') of
           Raised \<Rightarrow> (Inl RequestFailed, s')
         | Response r \<Rightarrow> (Inr r, s'))"

definition raise_for_status :: "response \<Rightarrow> error + unit" where
  "raise_for_status r =
     (if 400 \<le> status_code r \<and> status_code r < 600 then Inl (HTTPError r) else Inr ())"

definition response_json :: "response \<Rightarrow> error + json" where
  "response_json r = (case json_body r of None \<Rightarrow> Inl JSONDecodeError | Some d \<Rightarrow> Inr d)"

subsection \<open>login\<close>

definition client_request :: "state \<Rightarrow> request" where
  "client_request s =
     \<lparr>meth = GET, url = host s @ ''/api/v1/oauth-clients/local'', bearer = None, payload = NoBody\<rparr>"

definition token_data :: "state \<Rightarrow> json \<Rightarrow> error + (string \<times> json) list" where
  "token_data s client_data =
     bindE (py_getitem client_data ''client_id'') (\<lambda>client_id.
     bindE (py_getitem client_data ''client_secret'') (\<lambda>client_secret.
     Inr [(''client_id'', client_id), (''client_secret'', client_secret),
          (''grant_type'', JStr ''password''),
          (''username'', JStr (username s)), (''password'', JStr (password s))]))"

definition token_request :: "state \<Rightarrow> (string \<times> json) list \<Rightarrow> request" where
  "token_request s form =
     \<lparr>meth = POST, url = host s @ ''/api/v1/users/token'', bearer = None, payload = Form form\<rparr>"

definition profile_request :: "state \<Rightarrow> request" where
  "profile_request s =
     \<lparr>meth = GET, url = host s @ ''/api/v1/users/me'', bearer = Some (token s), payload = NoBody\<rparr>"

text \<open>
  Lines 19 to 45: the three calls. The token is stored as soon as the exchange has
  answered, before the profile is fetched. The result is \<open>user_data\<close>.
\<close>

definition login_requests :: "env \<Rightarrow> state \<Rightarrow> (error + json) \<times> state" where
  "login_requests env s0 =
     (case send env (client_request s0) s0 of
        (Inl e, s1) \<Rightarrow> (Inl e, s1)
      | (Inr client_response, s1) \<Rightarrow>
     (case bindE (raise_for_status client_response) (\<lambda>_.
           bindE (response_json client_response) (token_data s1)) of
        Inl e \<Rightarrow> (Inl e, s1)
      | Inr form \<Rightarrow>
     (case send env (token_request s1 form) s1 of
        (Inl e, s2) \<Rightarrow> (Inl e, s2)
      | (Inr response, s2) \<Rightarrow>
     (case bindE (raise_for_status response) (\<lambda>_.
           bindE (response_json response) (\<lambda>d. py_getitem d ''access_token'')) of
        Inl e \<Rightarrow> (Inl e, s2)
      | Inr access_token \<Rightarrow>
     (let s3 = s2\<lparr>token := access_token\<rparr> in
     (case send env (profile_request s3) s3 of
        (Inl e, s4) \<Rightarrow> (Inl e, s4)
      | (Inr response, s4) \<Rightarrow>
          (bindE (raise_for_status response) (\<lambda>_. response_json response), s4)))))))"

text \<open>
  The dictionary comprehension of line 48: for each channel the key expression, then
  the value expression, then the store, which hashes the key. A name met again keeps
  its place and takes the new id.
\<close>

fun channel_dict :: "json list \<Rightarrow> (key \<times> json) list \<Rightarrow> error + (key \<times> json) list" where
  "channel_dict [] acc = Inr acc"
| "channel_dict (channel # rest) acc =
     bindE (py_getitem channel ''name'') (\<lambda>name.
     bindE (py_getitem channel ''id'') (\<lambda>ident.
     bindE (py_hash name) (\<lambda>k.
     channel_dict rest (AList.update k ident acc))))"

text \<open>The condition of line 46; \<open>and\<close> evaluates its right operand only when the left holds.\<close>

definition has_channels :: "json \<Rightarrow> error + bool" where
  "has_channels user_data =
     bindE (py_contains ''videoChannels'' user_data) (\<lambda>present.
       if present
       then bindE (py_getitem user_data ''videoChannels'') (\<lambda>cs.
            bindE (py_len cs) (\<lambda>n. Inr (n > 0)))
       else Inr False)"

text \<open>Lines 46 to 51. \<open>self.channel_id\<close> is assigned before the comprehension runs.\<close>

definition login_channels :: "json \<Rightarrow> state \<Rightarrow> (error + unit) \<times> state" where
  "login_channels user_data s =
     (case has_channels user_data of
        Inl e \<Rightarrow> (Inl e, s)
      | Inr False \<Rightarrow> (Inl NoVideoChannels, s)
      | Inr True \<Rightarrow>
     (case bindE (py_getitem user_data ''videoChannels'') (\<lambda>cs.
           bindE (py_getitem0 cs) (\<lambda>c. py_getitem c ''id'')) of
        Inl e \<Rightarrow> (Inl e, s)
      | Inr first_id \<Rightarrow>
     (let s1 = s\<lparr>channel_id := first_id\<rparr> in
     (case bindE (py_getitem user_data ''videoChannels'') (\<lambda>cs.
           bindE (py_iter cs) (\<lambda>items. channel_dict items [])) of
        Inl e \<Rightarrow> (Inl e, s1)
      | Inr d \<Rightarrow> (Inr (), print (AvailableChannels d) (s1\<lparr>channels := d\<rparr>))))))"

definition login :: "env \<Rightarrow> state \<Rightarrow> (error + unit) \<times> state" where
  "login env s =
     (case login_requests env s of
        (Inl e, s1) \<Rightarrow> (Inl e, s1)
      | (Inr user_data, s1) \<Rightarrow> login_channels user_data s1)"

text \<open>\<open>if not self.token: self.login()\<close>, the first statement of both operations.\<close>

definition ensure_token :: "env \<Rightarrow> state \<Rightarrow> (error + unit) \<times> state" where
  "ensure_token env s = (if \<not> truthy (token s) then login env s else (Inr (), s))"

subsection \<open>create_channel\<close>

text \<open>An optional string argument counts as given when it is neither \<open>None\<close> nor empty.\<close>

definition given :: "string option \<Rightarrow> bool" where
  "given x = (case x of None \<Rightarrow> False | Some v \<Rightarrow> v \<noteq> [])"

definition channel_data_fields :: "string \<Rightarrow> string option \<Rightarrow> string option \<Rightarrow> (string \<times> json) list" where
  "channel_data_fields name display_name descr =
     [(''name'', JStr name),
      (''displayName'', JStr (if given display_name then the display_name else name))]
     @ (if given descr then [(''description'', JStr (the descr))] else [])"

definition channel_request :: "state \<Rightarrow> string \<Rightarrow> string option \<Rightarrow> string option \<Rightarrow> request" where
  "channel_request s name display_name descr =
     \<lparr>meth = POST, url = host s @ ''/api/v1/video-channels'', bearer = Some (token s),
      payload = JsonBody (channel_data_fields name display_name descr)\<rparr>"

text \<open>The body of the \<open>try\<close>, lines 69 to 75.\<close>

definition create_try ::
  "env \<Rightarrow> string \<Rightarrow> string option \<Rightarrow> string option \<Rightarrow> state \<Rightarrow> (error + json) \<times> state" where
  "create_try env name display_name descr s =
     (case send env (channel_request s name display_name descr) s of
        (Inl e, s1) \<Rightarrow> (Inl e, s1)
      | (Inr response, s1) \<Rightarrow>
     (case bindE (raise_for_status response) (\<lambda>_. response_json response) of
        Inl e \<Rightarrow> (Inl e, s1)
      | Inr channel_data \<Rightarrow>
     (case py_getitem channel_data ''id'' of
        Inl e \<Rightarrow> (Inl e, s1)
      | Inr ident \<Rightarrow>
          (Inr channel_data,
           print (CreatedChannel name)
             (s1\<lparr>channels := AList.update (KStr name) ident (channels s1)\<rparr>)))))"

text \<open>
  The handler of lines 76 to 80 catches \<open>HTTPError\<close> only; on status 409 it prints and
  the function falls off its end, returning \<open>None\<close>.
\<close>

definition create_channel ::
  "env \<Rightarrow> string \<Rightarrow> string option \<Rightarrow> string option \<Rightarrow> state \<Rightarrow> (error + json) \<times> state" where
  "create_channel env name display_name descr s0 =
     (case ensure_token env s0 of
        (Inl e, s1) \<Rightarrow> (Inl e, s1)
      | (Inr _, s1) \<Rightarrow>
     (case create_try env name display_name descr s1 of
        (Inr channel_data, s2) \<Rightarrow> (Inr channel_data, s2)
      | (Inl e, s2) \<Rightarrow>
          (case e of
             HTTPError r \<Rightarrow>
               if status_code r = 409
               then (Inr JNull, print (ChannelMightExist e) s2)
               else (Inl e, s2)
           | _ \<Rightarrow> (Inl e, s2))))"

subsection \<open>Paths\<close>

text \<open>
  \<open>pathlib\<close> on a POSIX system: the name of a path is its last component, empty and
  \<open>.\<close> components dropped; the suffix starts at the last dot of the name, unless that
  dot is the first or the last character. A \<open>string\<close> here is the UTF-8 encoding of
  the Python string: \<open>/\<close> and \<open>.\<close> are single bytes that occur in no other
  character's encoding, so splitting at them and the two tests on the place of the
  dot come out the same on bytes as on characters.
\<close>

fun split_on :: "char \<Rightarrow> string \<Rightarrow> string list" where
  "split_on c [] = [[]]"
| "split_on c (x # xs) =
     (if x = c then [] # split_on c xs
      else (case split_on c xs of [] \<Rightarrow> [[x]] | p # ps \<Rightarrow> (x # p) # ps))"

definition Path_name :: "string \<Rightarrow> string" where
  "Path_name p =
     (case rev (filter (\<lambda>q. q \<noteq> [] \<and> q \<noteq> ''.'') (split_on CHR ''/'' p)) of
        [] \<Rightarrow> []
      | n # _ \<Rightarrow> n)"

definition rfind_dot :: "string \<Rightarrow> int" where
  "rfind_dot name =
     (if CHR ''.'' \<in> set name
      then int (length name) - 1 - int (length (takeWhile (\<lambda>c. c \<noteq> CHR ''.'') (rev name)))
      else -1)"

definition Path_suffix :: "string \<Rightarrow> string" where
  "Path_suffix p =
     (let name = Path_name p; i = rfind_dot name
      in if 0 < i \<and> i < int (length name) - 1 then drop (nat i) name else [])"

definition Path_stem :: "string \<Rightarrow> string" where
  "Path_stem p =
     (let name = Path_name p; i = rfind_dot name
      in if 0 < i \<and> i < int (length name) - 1 then take (nat i) name else name)"

subsection \<open>upload_video\<close>

text \<open>Line 103.\<close>

definition select_channel :: "state \<Rightarrow> string option \<Rightarrow> json" where
  "select_channel s name =
     (if given name
      then (case map_of (channels s) (KStr (the name)) of
              Some ident \<Rightarrow> ident
            | None \<Rightarrow> channel_id s)
      else channel_id s)"

definition upload_data :: "state \<Rightarrow> upload_args \<Rightarrow> (string \<times> json) list" where
  "upload_data s a =
     [(''channelId'', select_channel s (channel_name a)),
      (''name'', JStr (if given (title a) then the (title a) else Path_stem (video_path a))),
      (''privacy'', JNum (privacy a)),
      (''waitTranscoding'', JBool (wait_transcoding a))]
     @ (if given (description a) then [(''description'', JStr (the (description a)))] else [])"

definition upload_request :: "state \<Rightarrow> upload_args \<Rightarrow> request" where
  "upload_request s a =
     \<lparr>meth = POST, url = host s @ ''/api/v1/videos/upload'', bearer = Some (token s),
      payload = Multipart (upload_data s a) (Path_name (video_path a)) (video_path a)\<rparr>"

text \<open>The body of the \<open>try\<close>, lines 127 to 144.\<close>

definition upload_try :: "env \<Rightarrow> upload_args \<Rightarrow> state \<Rightarrow> (error + json) \<times> state" where
  "upload_try env a s =
     (case send env (upload_request s a) s of
        (Inl e, s1) \<Rightarrow> (Inl e, s1)
      | (Inr response, s1) \<Rightarrow>
          if status_code response = 415 then (Inl FormatNotSupported, s1)
          else if status_code response = 413 then (Inl FileTooLarge, s1)
          else if status_code response = 422 then (Inl FileUnreadable, s1)
          else (case raise_for_status response of
                  Inl e \<Rightarrow> (Inl e, s1)
                | Inr _ \<Rightarrow>
                    (response_json response,
                     print (SuccessfullyUploaded (Path_name (video_path a))) s1)))"

text \<open>
  The exceptions \<open>except requests.exceptions.RequestException\<close> catches (the decoding
  error of \<open>response.json()\<close> is one of them since requests 2.27), and the \<open>text\<close> of
  \<open>e.response\<close>, which is \<open>None\<close> unless the exception came from \<open>raise_for_status\<close>.
\<close>

fun is_RequestException :: "error \<Rightarrow> bool" where
  "is_RequestException RequestFailed = True"
| "is_RequestException (HTTPError r) = True"
| "is_RequestException JSONDecodeError = True"
| "is_RequestException _ = False"

fun response_text :: "error \<Rightarrow> string option" where
  "response_text (HTTPError r) = Some (body_text r)"
| "response_text _ = None"

text \<open>Lines 146 to 150.\<close>

definition upload_except :: "error \<Rightarrow> state \<Rightarrow> state" where
  "upload_except e s =
     (if is_RequestException e
      then (let s1 = print (UploadFailed e) s
            in case response_text e of
                 Some t \<Rightarrow> print (ServerResponse t) s1
               | None \<Rightarrow> s1)
      else s)"

text \<open>
  The function without the call history. The file is opened while the \<open>files\<close>
  dictionary is built, before the \<open>try\<close>.
\<close>

definition upload_video_body :: "env \<Rightarrow> upload_args \<Rightarrow> state \<Rightarrow> (error + json) \<times> state" where
  "upload_video_body env a s0 =
     (case ensure_token env s0 of
        (Inl e, s1) \<Rightarrow> (Inl e, s1)
      | (Inr _, s1) \<Rightarrow>
          if \<not> fs_open env (video_path a) then (Inl OSError, s1)
          else
            (let s2 = print (Uploading (Path_name (video_path a)))
                        (s1\<lparr>opened_files := opened_files s1 @ [video_path a]\<rparr>)
             in case upload_try env a s2 of
                  (Inl e, s3) \<Rightarrow> (Inl e, upload_except e s3)
                | (Inr d, s3) \<Rightarrow> (Inr d, s3)))"

definition upload_video :: "env \<Rightarrow> upload_args \<Rightarrow> state \<Rightarrow> (error + json) \<times> state" where
  "upload_video env a s =
     (case upload_video_body env a s of
        (r, s') \<Rightarrow> (r, s'\<lparr>calls := calls s' @ [(a, r)]\<rparr>))"

subsection \<open>bulk_upload\<close>

definition video_extensions :: "string list" where
  "video_extensions = [''.mp4'', ''.webm'', ''.mkv'']"

definition bulk_args :: "string \<Rightarrow> int \<Rightarrow> string option \<Rightarrow> upload_args" where
  "bulk_args file_path priv name =
     \<lparr>video_path = file_path, title = None, description = None, privacy = priv,
      channel_name = name, wait_transcoding = True\<rparr>"

text \<open>
  The loop of lines 157 to 170 over the children of the directory, each given by the
  string of its path. \<open>str_lower\<close> is Python's \<open>str.lower\<close>, the lower-casing of the
  runtime's Unicode tables, which the source calls and does not define: it is a
  parameter. Every exception modelled here is an \<open>Exception\<close>, so the handler of line
  168 catches it.
\<close>

fun bulk_loop ::
  "env \<Rightarrow> (string \<Rightarrow> string) \<Rightarrow> int \<Rightarrow> string option \<Rightarrow> string list \<Rightarrow> json list \<Rightarrow> state
     \<Rightarrow> json list \<times> state" where
  "bulk_loop env str_lower priv name [] results s = (results, s)"
| "bulk_loop env str_lower priv name (file_path # rest) results s =
     (if str_lower (Path_suffix file_path) \<in> set video_extensions
      then (case upload_video env (bulk_args file_path priv name) s of
              (Inr result, s') \<Rightarrow>
                bulk_loop env str_lower priv name rest (results @ [result])
                  (s'\<lparr>slept := slept s' + 2\<rparr>)
            | (Inl e, s') \<Rightarrow>
                bulk_loop env str_lower priv name rest results
                  (print (ErrorUploading (Path_name file_path) e) s'))
      else bulk_loop env str_lower priv name rest results s)"

definition bulk_upload ::
  "env \<Rightarrow> (string \<Rightarrow> string) \<Rightarrow> string \<Rightarrow> int \<Rightarrow> string option \<Rightarrow> state
     \<Rightarrow> (error + json list) \<times> state" where
  "bulk_upload env str_lower video_dir priv name s =
     (case iterdir env video_dir of
        None \<Rightarrow> (Inl OSError, s)
      | Some entries \<Rightarrow>
          (case bulk_loop env str_lower priv name entries [] s of
             (results, s') \<Rightarrow> (Inr results, s')))"

subsection \<open>Notions used in the statements\<close>

text \<open>The three requests of one run of \<open>login\<close>, in the order they are issued.\<close>

definition auth_sequence :: "state \<Rightarrow> (string \<times> json) list \<Rightarrow> state \<Rightarrow> request list" where
  "auth_sequence s form s1 = [client_request s, token_request s form, profile_request s1]"

text \<open>The dictionary key a channel of the profile is stored under.\<close>

definition channel_key :: "json \<Rightarrow> error + key" where
  "channel_key c = bindE (py_getitem c ''name'') py_hash"

text \<open>The lines printed by the handler of \<open>bulk_upload\<close>.\<close>

fun is_ErrorUploading :: "msg \<Rightarrow> bool" where
  "is_ErrorUploading (ErrorUploading n e) = True"
| "is_ErrorUploading _ = False"

text \<open>What a history of calls says: the documents of the calls that returned, and the
  lines the loop of \<open>bulk_upload\<close> prints for the calls that raised.\<close>

fun successes :: "(upload_args \<times> (error + json)) list \<Rightarrow> json list" where
  "successes [] = []"
| "successes ((a, Inr d) # cs) = d # successes cs"
| "successes ((a, Inl e) # cs) = successes cs"

fun failure_reports :: "(upload_args \<times> (error + json)) list \<Rightarrow> msg list" where
  "failure_reports [] = []"
| "failure_reports ((a, Inr d) # cs) = failure_reports cs"
| "failure_reports ((a, Inl e) # cs) =
     ErrorUploading (Path_name (video_path a)) e # failure_reports cs"

text \<open>
  The entries whose extension is one of the three, letter case apart: the suffix,
  put in lower case by \<open>str.lower\<close>, is \<open>.mp4\<close>, \<open>.webm\<close> or \<open>.mkv\<close>.
\<close>

definition recognised :: "(string \<Rightarrow> string) \<Rightarrow> string \<Rightarrow> bool" where
  "recognised str_lower file_path \<longleftrightarrow>
     str_lower (Path_suffix file_path) \<in> {''.mp4'', ''.webm'', ''.mkv''}"

text \<open>
  The bulk publisher in the words of the specification: each file of a list goes to
  the video publisher with the given privacy level and channel name, waiting for
  transcoding always asked for; a result is appended to the results and followed by
  a pause of 2; a failure is reported and the next file is taken.
\<close>

fun publish_all ::
  "env \<Rightarrow> int \<Rightarrow> string option \<Rightarrow> string list \<Rightarrow> json list \<Rightarrow> state \<Rightarrow> json list \<times> state" where
  "publish_all env priv name [] results s = (results, s)"
| "publish_all env priv name (f # files) results s =
     (case upload_video env
             \<lparr>video_path = f, title = None, description = None, privacy = priv,
              channel_name = name, wait_transcoding = True\<rparr> s of
        (Inr doc, s') \<Rightarrow>
          publish_all env priv name files (results @ [doc]) (s'\<lparr>slept := slept s' + 2\<rparr>)
      | (Inl e, s') \<Rightarrow>
          publish_all env priv name files results
            (s'\<lparr>printed := printed s' @ [ErrorUploading (Path_name f) e]\<rparr>))"

text \<open>The names of the files the upload requests of a log carry, and whether each asks
  to wait for transcoding.\<close>

definition uploads_sent :: "request list \<Rightarrow> (string \<times> json option) list" where
  "uploads_sent rs =
     concat (map (\<lambda>rq. case payload rq of
                          Multipart fs n h \<Rightarrow> [(h, map_of fs ''waitTranscoding'')]
                        | _ \<Rightarrow> []) rs)"

subsection \<open>A service to run the operations against\<close>

text \<open>
  A service that tells the requests apart by their shape: it hands out the token
  \<open>tok\<close>, serves a given profile, answers every channel creation with one fixed
  response and every upload by the name of the file.
\<close>

definition ok_response :: "json \<Rightarrow> response" where
  "ok_response d = \<lparr>status_code = 200, body_text = [], json_body = Some d\<rparr>"

definition error_response :: "nat \<Rightarrow> string \<Rightarrow> response" where
  "error_response n t = \<lparr>status_code = n, body_text = t, json_body = None\<rparr>"

definition example_server ::
  "json \<Rightarrow> response \<Rightarrow> (string \<Rightarrow> response) \<Rightarrow> request list \<Rightarrow> outcome" where
  "example_server profile channel_response upload_response rs =
     (if rs = [] then Raised
      else case payload (last rs) of
             Form f \<Rightarrow> Response (ok_response (JObj [(''access_token'', JStr ''tok'')]))
           | JsonBody d \<Rightarrow> Response channel_response
           | Multipart d n p \<Rightarrow> Response (upload_response n)
           | NoBody \<Rightarrow>
               (case bearer (last rs) of
                  None \<Rightarrow> Response (ok_response
                            (JObj [(''client_id'', JStr ''id''), (''client_secret'', JStr ''secret'')]))
                | Some t \<Rightarrow> Response (ok_response profile)))"

definition example_channel :: "string \<Rightarrow> int \<Rightarrow> json" where
  "example_channel n i = JObj [(''id'', JNum i), (''name'', JStr n)]"

definition example_profile :: json where
  "example_profile =
     JObj [(''username'', JStr ''u''),
           (''videoChannels'', JArr [example_channel ''main'' 7, example_channel ''other'' 9])]"

definition example_uploads :: "string \<Rightarrow> response" where
  "example_uploads n =
     (if n = ''2.mp4'' \<or> n = ''big.mp4'' then error_response 413 ''quota''
      else if n = ''odd.mp4'' then error_response 415 ''format''
      else if n = ''torn.mp4'' then error_response 422 ''unreadable''
      else if n = ''down.mp4'' then error_response 503 ''unavailable''
      else ok_response (JObj [(''video'', JStr n)]))"

definition example_listing :: "string \<Rightarrow> string list option" where
  "example_listing d =
     (if d = ''vids'' then Some [''vids/a.mp4'', ''vids/b.txt'', ''vids/c.MKV'', ''vids/d.webm'']
      else if d = ''three'' then Some [''three/1.mp4'', ''three/2.mp4'', ''three/3.mp4'']
      else None)"

definition example_env :: env where
  "example_env =
     \<lparr>http = example_server example_profile
               \<lparr>status_code = 409, body_text = ''conflict'', json_body = Some (example_channel ''main'' 7)\<rparr>
               example_uploads,
      fs_open = (\<lambda>p. p \<noteq> ''missing.mp4''),
      iterdir = example_listing\<rparr>"

definition example_env_no_channels :: env where
  "example_env_no_channels =
     \<lparr>http = example_server (JObj [(''username'', JStr ''u''), (''videoChannels'', JArr [])])
               (ok_response (example_channel ''first'' 1))
               example_uploads,
      fs_open = (\<lambda>p. True),
      iterdir = example_listing\<rparr>"

definition example_init :: state where
  "example_init = init ''https://tube.example/'' ''u'' ''p''"

definition example_args :: "string \<Rightarrow> upload_args" where
  "example_args p = bulk_args p 1 (Some ''other'')"

text \<open>The same service refusing every channel creation, and the session after a login.\<close>

definition example_env_forbidden :: env where
  "example_env_forbidden =
     \<lparr>http = example_server example_profile (error_response 403 ''forbidden'') example_uploads,
      fs_open = (\<lambda>p. True),
      iterdir = example_listing\<rparr>"

definition example_session :: state where
  "example_session = snd (login example_env example_init)"

text \<open>The \<open>channelId\<close> field of an upload request.\<close>

definition sent_channel_id :: "request \<Rightarrow> json option" where
  "sent_channel_id rq =
     (case payload rq of Multipart fs n h \<Rightarrow> map_of fs ''channelId'' | _ \<Rightarrow> None)"

text \<open>
  What \<open>str.lower\<close> returns on the suffixes of the examples: on a string of ASCII
  characters, where it takes \<open>A\<close> to \<open>Z\<close> to \<open>a\<close> to \<open>z\<close> and leaves the rest, and on
  the suffix \<open>.m\<close>, KELVIN SIGN (U+212A, in UTF-8 the bytes E2 84 AA), \<open>v\<close>, whose lower
  case is \<open>.mkv\<close>.
\<close>

definition ascii_lower_char :: "char \<Rightarrow> char" where
  "ascii_lower_char c =
     (let n = (of_char c :: nat) in if 65 \<le> n \<and> n \<le> 90 then char_of (n + 32) else c)"

definition kelvin_suffix :: string where
  "kelvin_suffix = [CHR ''.'', CHR ''m'', CHR 0xE2, CHR 0x84, CHR 0xAA, CHR ''v'']"

definition example_lower :: "string \<Rightarrow> string" where
  "example_lower s = (if s = kelvin_suffix then ''.mkv'' else map ascii_lower_char s)"

definition kelvin_listing :: "string \<Rightarrow> string list option" where
  "kelvin_listing d = (if d = ''k'' then Some [''k/e'' @ kelvin_suffix, ''k/f.txt''] else None)"

definition example_env_kelvin :: env where
  "example_env_kelvin = example_env\<lparr>iterdir := kelvin_listing\<rparr>"

text \<open>The same service with a token exchange that answers \<open>{"access_token": null}\<close>.\<close>

definition example_env_null_token :: env where
  "example_env_null_token =
     example_env\<lparr>http := (\<lambda>rs.
       if rs \<noteq> [] \<and> (case payload (last rs) of Form f \<Rightarrow> True | _ \<Rightarrow> False)
       then Response (ok_response (JObj [(''access_token'', JNull)]))
       else http example_env rs)\<rparr>"

section \<open>Properties\<close>

subsection \<open>Auxiliary facts\<close>

lemma send_eq:
  "send env rq s =
     (case http env (sent s @ [rq]) of Raised \<Rightarrow> Inl RequestFailed | Response r \<Rightarrow> Inr r,
      s\<lparr>sent := sent s @ [rq]\<rparr>)"
  by (simp add: send_def Let_def split: outcome.splits)

lemma bindE_Inr_iff: "bindE r f = Inr y \<longleftrightarrow> (\<exists>x. r = Inr x \<and> f x = Inr y)"
  by (cases r) (auto simp: bindE_def)

lemma Inl_eq_bindE [simp]: "(Inl e = bindE r f) = (bindE r f = Inl e)"
  by auto

lemma Inr_eq_bindE [simp]: "(Inr e = bindE r f) = (bindE r f = Inr e)"
  by auto

lemma raise_for_status_Inr: "raise_for_status r = Inr u \<longleftrightarrow> \<not> (400 \<le> status_code r \<and> status_code r < 600)"
  by (auto simp: raise_for_status_def)

lemma response_json_Inr: "response_json r = Inr d \<longleftrightarrow> json_body r = Some d"
  by (auto simp: response_json_def split: option.splits)

lemma request_host [simp]:
  "client_request (s\<lparr>sent := x\<rparr>) = client_request s"
  "client_request (s\<lparr>token := t\<rparr>) = client_request s"
  "token_request (s\<lparr>sent := x\<rparr>) form = token_request s form"
  "token_request (s\<lparr>token := t\<rparr>) form = token_request s form"
  "profile_request (s\<lparr>sent := x\<rparr>) = profile_request s"
  by (simp_all add: client_request_def token_request_def profile_request_def)

lemma login_requests_frame:
  assumes "login_requests env s = (r, s1)"
  shows "host s1 = host s \<and> username s1 = username s \<and> password s1 = password s \<and>
         channel_id s1 = channel_id s \<and> channels s1 = channels s \<and> printed s1 = printed s \<and>
         opened_files s1 = opened_files s \<and> slept s1 = slept s \<and> calls s1 = calls s"
  using assms
  unfolding login_requests_def send_eq Let_def
  by (auto split: sum.splits outcome.splits prod.splits)

lemma login_requests_sent:
  assumes "login_requests env s = (r, s1)"
  shows "(\<exists>e. r = Inl e \<and> sent s1 = sent s @ [client_request s] \<and> token s1 = token s) \<or>
         (\<exists>e form. r = Inl e \<and> sent s1 = sent s @ [client_request s, token_request s form] \<and> token s1 = token s) \<or>
         (\<exists>form resp doc. sent s1 = sent s @ auth_sequence s form s1 \<and>
             http env (sent s @ [client_request s, token_request s form]) = Response resp \<and>
             json_body resp = Some doc \<and> py_getitem doc ''access_token'' = Inr (token s1) \<and>
             (\<forall>ud. r = Inr ud \<longrightarrow> (\<exists>resp. http env (sent s1) = Response resp \<and> raise_for_status resp = Inr () \<and> json_body resp = Some ud)))"
  using assms
  unfolding login_requests_def send_eq Let_def auth_sequence_def
  by (auto split: sum.splits outcome.splits prod.splits simp: bindE_Inr_iff response_json_Inr profile_request_def)

lemma login_channels_frame:
  assumes "login_channels ud s = (r, s')"
  shows "host s' = host s \<and> username s' = username s \<and> password s' = password s \<and>
         token s' = token s \<and> sent s' = sent s \<and>
         opened_files s' = opened_files s \<and> slept s' = slept s \<and> calls s' = calls s"
  using assms
  unfolding login_channels_def Let_def print_def
  by (auto split: sum.splits bool.splits)

lemma update_fresh: "k \<notin> fst ` set al \<Longrightarrow> AList.update k v al = al @ [(k, v)]"
  by (induction al) auto

lemma channel_dict_distinct:
  assumes "channel_dict cs acc = Inr d"
    and "distinct (map channel_key cs)"
    and "\<forall>c\<in>set cs. channel_key c \<notin> Inr ` fst ` set acc"
  shows "map (\<lambda>(k, i). (Inr k, Inr i)) d =
         map (\<lambda>(k, i). (Inr k, Inr i)) acc @ map (\<lambda>c. (channel_key c, py_getitem c ''id'')) cs"
  using assms
proof (induction cs arbitrary: acc)
  case Nil
  then show ?case by simp
next
  case (Cons c cs)
  from Cons.prems(1) obtain name ident k where
    n: "py_getitem c ''name'' = Inr name" and i: "py_getitem c ''id'' = Inr ident"
    and k: "py_hash name = Inr k"
    and rest: "channel_dict cs (AList.update k ident acc) = Inr d"
    by (auto simp: bindE_Inr_iff)
  have ck: "channel_key c = Inr k"
    using n k by (simp add: channel_key_def bindE_def)
  have fresh: "k \<notin> fst ` set acc"
    using Cons.prems(3) ck by force
  have upd: "AList.update k ident acc = acc @ [(k, ident)]"
    using fresh by (rule update_fresh)
  have "\<forall>c'\<in>set cs. channel_key c' \<notin> Inr ` fst ` set (acc @ [(k, ident)])"
  proof
    fix c' assume c': "c' \<in> set cs"
    have "channel_key c' \<in> channel_key ` set cs"
      using c' by (rule imageI)
    moreover have "channel_key c \<notin> channel_key ` set cs"
      using Cons.prems(2) by simp
    ultimately have "channel_key c' \<noteq> channel_key c"
      by metis
    moreover have "channel_key c' \<notin> Inr ` fst ` set acc"
      using Cons.prems(3) c' by simp
    ultimately show "channel_key c' \<notin> Inr ` fst ` set (acc @ [(k, ident)])"
      using ck by auto
  qed
  with Cons.IH[of "acc @ [(k, ident)]"] rest upd Cons.prems(2)
  have "map (\<lambda>(k, i). (Inr k, Inr i)) d =
        map (\<lambda>(k, i). (Inr k, Inr i)) (acc @ [(k, ident)]) @ map (\<lambda>c. (channel_key c, py_getitem c ''id'')) cs"
    by simp
  then show ?case using ck i by simp
qed

lemma login_channels_success:
  assumes "login_channels ud s = (Inr (), s')"
  shows "\<exists>cs. py_getitem ud ''videoChannels'' = Inr (JArr cs) \<and> cs \<noteq> [] \<and>
              py_getitem (hd cs) ''id'' = Inr (channel_id s') \<and>
              channel_dict cs [] = Inr (channels s')"
proof -
  from assms obtain v where v: "py_getitem ud ''videoChannels'' = Inr v"
    unfolding login_channels_def Let_def
    by (auto split: sum.splits bool.splits simp: bindE_Inr_iff)
  from assms v obtain c where c: "py_getitem0 v = Inr c" and ci: "py_getitem c ''id'' = Inr (channel_id s')"
    unfolding login_channels_def Let_def print_def
    by (auto split: sum.splits bool.splits simp: bindE_Inr_iff)
  from c ci obtain cs where cs: "v = JArr cs" "cs \<noteq> []" "hd cs = c"
    by (cases v rule: py_getitem0.cases) auto
  from assms v cs have "channel_dict cs [] = Inr (channels s')"
    unfolding login_channels_def Let_def print_def
    by (auto split: sum.splits bool.splits simp: bindE_Inr_iff)
  with v cs ci show ?thesis by auto
qed

lemma login_channels_none:
  assumes "ud = JObj kvs"
    and "map_of (rev kvs) ''videoChannels'' = None \<or> map_of (rev kvs) ''videoChannels'' = Some (JArr [])"
  shows "login_channels ud s = (Inl NoVideoChannels, s)"
  using assms
  unfolding login_channels_def has_channels_def
  by (auto simp: bindE_def map_of_eq_None_iff split: sum.splits bool.splits option.splits)

lemma login_frame:
  assumes "login env s = (r, s1)"
  shows "host s1 = host s \<and> username s1 = username s \<and> password s1 = password s \<and>
         opened_files s1 = opened_files s \<and> slept s1 = slept s \<and> calls s1 = calls s"
proof (cases "login_requests env s")
  case (Pair q s0)
  note f = login_requests_frame[OF Pair]
  show ?thesis
  proof (cases q)
    case (Inl e)
    with Pair assms f show ?thesis by (simp add: login_def)
  next
    case (Inr ud)
    with Pair assms have "login_channels ud s0 = (r, s1)" by (simp add: login_def)
    from login_channels_frame[OF this] f show ?thesis by simp
  qed
qed

lemma login_channels_printed:
  assumes "login_channels ud s = (r, s')"
  shows "\<exists>ms. printed s' = printed s @ ms \<and> filter is_ErrorUploading ms = []"
  using assms
  unfolding login_channels_def Let_def print_def
  by (auto split: sum.splits bool.splits)

lemma login_printed:
  assumes "login env s = (r, s1)"
  shows "\<exists>ms. printed s1 = printed s @ ms \<and> filter is_ErrorUploading ms = []"
proof (cases "login_requests env s")
  case (Pair q s0)
  note f = login_requests_frame[OF Pair]
  show ?thesis
  proof (cases q)
    case (Inl e)
    with Pair assms f show ?thesis by (simp add: login_def)
  next
    case (Inr ud)
    with Pair assms have "login_channels ud s0 = (r, s1)" by (simp add: login_def)
    from login_channels_printed[OF this] f show ?thesis by simp
  qed
qed

lemma login_sent:
  assumes "login env s = (r, s1)"
  shows "(\<exists>e. r = Inl e \<and> sent s1 = sent s @ [client_request s] \<and> token s1 = token s) \<or>
         (\<exists>e form. r = Inl e \<and> sent s1 = sent s @ [client_request s, token_request s form] \<and> token s1 = token s) \<or>
         (\<exists>form resp doc. sent s1 = sent s @ auth_sequence s form s1 \<and>
             http env (sent s @ [client_request s, token_request s form]) = Response resp \<and>
             json_body resp = Some doc \<and> py_getitem doc ''access_token'' = Inr (token s1))"
proof (cases "login_requests env s")
  case (Pair q s0)
  note f = login_requests_sent[OF Pair]
  show ?thesis
  proof (cases q)
    case (Inl e)
    with Pair assms f show ?thesis by (auto simp: login_def)
  next
    case (Inr ud)
    with Pair assms have lc: "login_channels ud s0 = (r, s1)" by (simp add: login_def)
    have eq: "sent s1 = sent s0" "token s1 = token s0" "host s1 = host s0"
      using login_channels_frame[OF lc] by simp_all
    have "auth_sequence s form s1 = auth_sequence s form s0" for form
      using eq by (simp add: auth_sequence_def profile_request_def)
    with f Inr eq show ?thesis by auto
  qed
qed

lemma ensure_token_frame:
  assumes "ensure_token env s = (r, s1)"
  shows "host s1 = host s \<and> opened_files s1 = opened_files s \<and> slept s1 = slept s \<and> calls s1 = calls s"
  using assms login_frame[of env s r s1]
  by (auto simp: ensure_token_def split: if_splits)

lemma ensure_token_printed:
  assumes "ensure_token env s = (r, s1)"
  shows "\<exists>ms. printed s1 = printed s @ ms \<and> filter is_ErrorUploading ms = []"
  using assms login_printed[of env s r s1]
  by (auto simp: ensure_token_def split: if_splits)

lemma upload_request_frame [simp]:
  "upload_request (s\<lparr>opened_files := x\<rparr>) a = upload_request s a"
  "upload_request (s\<lparr>printed := y\<rparr>) a = upload_request s a"
  "upload_request (s\<lparr>sent := z\<rparr>) a = upload_request s a"
  by (simp_all add: upload_request_def upload_data_def select_channel_def split: option.splits)

lemma upload_try_eq:
  "upload_try env a s =
     (case http env (sent s @ [upload_request s a]) of
        Raised \<Rightarrow> (Inl RequestFailed, s\<lparr>sent := sent s @ [upload_request s a]\<rparr>)
      | Response r \<Rightarrow>
          if status_code r = 415 then (Inl FormatNotSupported, s\<lparr>sent := sent s @ [upload_request s a]\<rparr>)
          else if status_code r = 413 then (Inl FileTooLarge, s\<lparr>sent := sent s @ [upload_request s a]\<rparr>)
          else if status_code r = 422 then (Inl FileUnreadable, s\<lparr>sent := sent s @ [upload_request s a]\<rparr>)
          else if 400 \<le> status_code r \<and> status_code r < 600
               then (Inl (HTTPError r), s\<lparr>sent := sent s @ [upload_request s a]\<rparr>)
          else (response_json r,
                s\<lparr>sent := sent s @ [upload_request s a],
                  printed := printed s @ [SuccessfullyUploaded (Path_name (video_path a))]\<rparr>))"
  unfolding upload_try_def send_eq
  by (simp add: raise_for_status_def print_def split: outcome.splits)

text \<open>What \<open>upload_video_body\<close> does once the token is there.\<close>

lemma upload_video_body_eq:
  assumes "ensure_token env s = (Inr (), s1)"
  shows "upload_video_body env a s =
     (if \<not> fs_open env (video_path a) then (Inl OSError, s1)
      else (case upload_try env a
                   (s1\<lparr>opened_files := opened_files s1 @ [video_path a],
                       printed := printed s1 @ [Uploading (Path_name (video_path a))]\<rparr>) of
              (Inl e, s3) \<Rightarrow> (Inl e, upload_except e s3)
            | (Inr d, s3) \<Rightarrow> (Inr d, s3)))"
  using assms by (simp add: upload_video_body_def print_def Let_def)

lemma upload_video_body_fail:
  assumes "ensure_token env s = (Inl e, s1)"
  shows "upload_video_body env a s = (Inl e, s1)"
  using assms by (simp add: upload_video_body_def)

lemma upload_except_frame:
  "sent (upload_except e s) = sent s \<and> calls (upload_except e s) = calls s \<and>
   opened_files (upload_except e s) = opened_files s \<and>
   (\<exists>ms. printed (upload_except e s) = printed s @ ms \<and> filter is_ErrorUploading ms = [])"
  by (cases e) (simp_all add: upload_except_def print_def Let_def)

lemma channel_request_frame [simp]:
  "channel_request (s\<lparr>sent := z\<rparr>) n dn d = channel_request s n dn d"
  by (simp add: channel_request_def)

lemma create_try_eq:
  "create_try env n dn d s =
     (case http env (sent s @ [channel_request s n dn d]) of
        Raised \<Rightarrow> (Inl RequestFailed, s\<lparr>sent := sent s @ [channel_request s n dn d]\<rparr>)
      | Response r \<Rightarrow>
          if 400 \<le> status_code r \<and> status_code r < 600
          then (Inl (HTTPError r), s\<lparr>sent := sent s @ [channel_request s n dn d]\<rparr>)
          else (case bindE (response_json r) (\<lambda>c. bindE (py_getitem c ''id'') (\<lambda>i. Inr (c, i))) of
                  Inl e \<Rightarrow> (Inl e, s\<lparr>sent := sent s @ [channel_request s n dn d]\<rparr>)
                | Inr (c, i) \<Rightarrow>
                    (Inr c, s\<lparr>sent := sent s @ [channel_request s n dn d],
                             channels := AList.update (KStr n) i (channels s),
                             printed := printed s @ [CreatedChannel n]\<rparr>)))"
  unfolding create_try_def send_eq
  by (auto simp: raise_for_status_def print_def bindE_def split: outcome.splits sum.splits)

lemma create_channel_http_error:
  assumes "ensure_token env s = (Inr (), s1)"
    and "http env (sent s1 @ [channel_request s1 n dn d]) = Response r"
    and "400 \<le> status_code r" "status_code r < 600"
  shows "create_channel env n dn d s =
     (if status_code r = 409
      then (Inr JNull, s1\<lparr>sent := sent s1 @ [channel_request s1 n dn d],
                          printed := printed s1 @ [ChannelMightExist (HTTPError r)]\<rparr>)
      else (Inl (HTTPError r), s1\<lparr>sent := sent s1 @ [channel_request s1 n dn d]\<rparr>))"
  using assms by (simp add: create_channel_def create_try_eq print_def)

subsection \<open>Channel creation\<close>

text \<open>
  C10. When the service answers the create-channel request with status 409, the
  operation returns \<open>None\<close>, whatever document the response carries: the id of the
  channel that holds the name cannot be read off the return value.
\<close>

theorem create_channel_conflict_returns_None:
  assumes "ensure_token env s = (Inr (), s1)"
    and "http env (sent s1 @ [channel_request s1 n dn d]) = Response r"
    and "status_code r = 409"
  shows "fst (create_channel env n dn d s) = Inr JNull"
  using create_channel_http_error[OF assms(1,2)] assms(3) by simp

theorem create_channel_conflict_returns_None_witness:
  "ensure_token example_env example_init = (Inr (), snd (login example_env example_init)) \<and>
   http example_env (sent (snd (login example_env example_init))
      @ [channel_request (snd (login example_env example_init)) ''main'' None None])
     = Response \<lparr>status_code = 409, body_text = ''conflict'', json_body = Some (example_channel ''main'' 7)\<rparr> \<and>
   fst (create_channel example_env ''main'' None None example_init) = Inr JNull"
proof -
  have h1: "ensure_token example_env example_init = (Inr (), snd (login example_env example_init))"
    by code_simp
  have h2: "http example_env (sent (snd (login example_env example_init))
      @ [channel_request (snd (login example_env example_init)) ''main'' None None])
     = Response \<lparr>status_code = 409, body_text = ''conflict'', json_body = Some (example_channel ''main'' 7)\<rparr>"
    by code_simp
  have h3: "status_code \<lparr>status_code = 409, body_text = ''conflict'', json_body = Some (example_channel ''main'' 7)\<rparr> = 409"
    by simp
  from create_channel_conflict_returns_None[OF h1 h2 h3] h1 h2 show ?thesis by simp
qed

lemma ensure_token_held:
  "truthy (token s) \<Longrightarrow> ensure_token env s = (Inr (), s)"
  by (simp add: ensure_token_def)

subsection \<open>Single upload\<close>

lemma upload_video_response:
  assumes "ensure_token env s = (Inr (), s1)"
    and "fs_open env (video_path a)"
    and "http env (sent s1 @ [upload_request s1 a]) = Response r"
    and "400 \<le> status_code r" and "status_code r < 600"
  shows "fst (upload_video env a s) =
           (if status_code r = 415 then Inl FormatNotSupported
            else if status_code r = 413 then Inl FileTooLarge
            else if status_code r = 422 then Inl FileUnreadable
            else Inl (HTTPError r))"
    and "printed (snd (upload_video env a s)) =
           printed s1 @ [Uploading (Path_name (video_path a))] @
           (if status_code r \<in> {415, 413, 422} then []
            else [UploadFailed (HTTPError r), ServerResponse (body_text r)])"
  using assms
  by (simp_all add: upload_video_def upload_video_body_eq upload_try_eq upload_except_def print_def)

text \<open>
  C5. The answer to the upload request decides the error: 415 raises the
  format-not-supported exception, 413 the quota one, 422 the unreadable-file one, three
  different errors; any other status from 400 to 599 raises the \<open>HTTPError\<close> of
  \<open>raise_for_status\<close>, after the lines \<open>Upload failed\<close> and \<open>Server response\<close> with the
  text of the response body have been printed.
\<close>

theorem upload_status_errors:
  assumes "ensure_token env s = (Inr (), s1)"
    and "fs_open env (video_path a)"
    and "http env (sent s1 @ [upload_request s1 a]) = Response r"
  shows "(status_code r = 415 \<longrightarrow> fst (upload_video env a s) = Inl FormatNotSupported) \<and>
         (status_code r = 413 \<longrightarrow> fst (upload_video env a s) = Inl FileTooLarge) \<and>
         (status_code r = 422 \<longrightarrow> fst (upload_video env a s) = Inl FileUnreadable) \<and>
         distinct [FormatNotSupported, FileTooLarge, FileUnreadable] \<and>
         (400 \<le> status_code r \<and> status_code r < 600 \<and> status_code r \<notin> {415, 413, 422} \<longrightarrow>
            fst (upload_video env a s) = Inl (HTTPError r) \<and>
            HTTPError r \<notin> {FormatNotSupported, FileTooLarge, FileUnreadable} \<and>
            printed (snd (upload_video env a s)) =
              printed s1 @ [Uploading (Path_name (video_path a)),
                            UploadFailed (HTTPError r), ServerResponse (body_text r)])"
  using upload_video_response[OF assms] by auto

theorem upload_status_errors_witness:
  "fst (upload_video example_env (example_args ''odd.mp4'') example_session) = Inl FormatNotSupported \<and>
   fst (upload_video example_env (example_args ''big.mp4'') example_session) = Inl FileTooLarge \<and>
   fst (upload_video example_env (example_args ''torn.mp4'') example_session) = Inl FileUnreadable \<and>
   fst (upload_video example_env (example_args ''down.mp4'') example_session)
     = Inl (HTTPError (error_response 503 ''unavailable'')) \<and>
   printed (snd (upload_video example_env (example_args ''down.mp4'') example_session))
     = printed example_session @
       [Uploading ''down.mp4'', UploadFailed (HTTPError (error_response 503 ''unavailable'')),
        ServerResponse ''unavailable'']"
proof -
  have t: "truthy (token example_session)" by code_simp
  have e: "ensure_token example_env example_session = (Inr (), example_session)"
    using t by (rule ensure_token_held)
  have o: "fs_open example_env (video_path (example_args p))" if "p \<noteq> ''missing.mp4''" for p
    using that by (simp add: example_env_def example_args_def bulk_args_def)
  have r1: "http example_env (sent example_session @ [upload_request example_session (example_args ''odd.mp4'')])
              = Response (error_response 415 ''format'')"
    by code_simp
  have r2: "http example_env (sent example_session @ [upload_request example_session (example_args ''big.mp4'')])
              = Response (error_response 413 ''quota'')"
    by code_simp
  have r3: "http example_env (sent example_session @ [upload_request example_session (example_args ''torn.mp4'')])
              = Response (error_response 422 ''unreadable'')"
    by code_simp
  have r4: "http example_env (sent example_session @ [upload_request example_session (example_args ''down.mp4'')])
              = Response (error_response 503 ''unavailable'')"
    by code_simp
  have n: "Path_name (video_path (example_args ''down.mp4'')) = ''down.mp4''"
    by code_simp
  from upload_status_errors[OF e o r1] upload_status_errors[OF e o r2]
       upload_status_errors[OF e o r3] upload_status_errors[OF e o r4] n
  show ?thesis by (simp add: error_response_def)
qed

text \<open>
  C7. Once the token is there and the file is open, the upload request is issued, and
  its \<open>channelId\<close> is the cache's entry for the channel name when a non-empty name is
  given and the cache has it, and the default channel id when the cache does not have
  it or when no name (or the empty one) is given. A missing name raises nothing.
\<close>

theorem upload_channel_resolution:
  assumes "ensure_token env s = (Inr (), s1)"
    and "fs_open env (video_path a)"
  shows "sent (snd (upload_video env a s)) = sent s1 @ [upload_request s1 a] \<and>
         (\<forall>c i. channel_name a = Some c \<and> c \<noteq> [] \<and> map_of (channels s1) (KStr c) = Some i \<longrightarrow>
            sent_channel_id (upload_request s1 a) = Some i) \<and>
         (\<forall>c. channel_name a = Some c \<and> c \<noteq> [] \<and> map_of (channels s1) (KStr c) = None \<longrightarrow>
            sent_channel_id (upload_request s1 a) = Some (channel_id s1)) \<and>
         (channel_name a = None \<or> channel_name a = Some [] \<longrightarrow>
            sent_channel_id (upload_request s1 a) = Some (channel_id s1))"
proof -
  have "sent (snd (upload_video env a s)) = sent s1 @ [upload_request s1 a]"
    using assms
    by (simp add: upload_video_def upload_video_body_eq upload_try_eq upload_except_frame
             split: outcome.splits prod.splits sum.splits)
  moreover have "sent_channel_id (upload_request s1 a) = Some (select_channel s1 (channel_name a))"
    by (simp add: sent_channel_id_def upload_request_def upload_data_def)
  ultimately show ?thesis
    by (auto simp: select_channel_def given_def)
qed

theorem upload_channel_resolution_witness:
  "sent_channel_id (last (sent (snd (upload_video example_env (bulk_args ''a.mp4'' 1 (Some ''other'')) example_session))))
     = Some (JNum 9) \<and>
   sent_channel_id (last (sent (snd (upload_video example_env (bulk_args ''a.mp4'' 1 (Some ''absent'')) example_session))))
     = Some (JNum 7) \<and>
   fst (upload_video example_env (bulk_args ''a.mp4'' 1 (Some ''absent'')) example_session)
     = Inr (JObj [(''video'', JStr ''a.mp4'')]) \<and>
   sent_channel_id (last (sent (snd (upload_video example_env (bulk_args ''a.mp4'' 1 None) example_session))))
     = Some (JNum 7)"
proof -
  have t: "truthy (token example_session)" by code_simp
  have e: "ensure_token example_env example_session = (Inr (), example_session)"
    using t by (rule ensure_token_held)
  have o: "fs_open example_env (video_path (bulk_args ''a.mp4'' 1 c))" for c
    by (simp add: example_env_def bulk_args_def)
  have c: "channels example_session = [(KStr ''main'', JNum 7), (KStr ''other'', JNum 9)]"
    "channel_id example_session = JNum 7"
    by code_simp+
  have r: "fst (upload_video example_env (bulk_args ''a.mp4'' 1 (Some ''absent'')) example_session)
     = Inr (JObj [(''video'', JStr ''a.mp4'')])"
    by code_simp
  from upload_channel_resolution[OF e o, of "Some ''other''"]
       upload_channel_resolution[OF e o, of "Some ''absent''"]
       upload_channel_resolution[OF e o, of None] c r
  show ?thesis by (simp add: bulk_args_def)
qed

subsection \<open>Login\<close>

lemma upload_video_sent:
  assumes "ensure_token env s = (Inr (), s1)"
  shows "sent (snd (upload_video env a s)) =
           sent s1 @ (if fs_open env (video_path a) then [upload_request s1 a] else [])"
  using assms
  by (simp add: upload_video_def upload_video_body_eq upload_try_eq upload_except_frame
           split: outcome.splits prod.splits sum.splits)

lemma create_channel_sent:
  assumes "ensure_token env s = (Inr (), s1)"
  shows "sent (snd (create_channel env n dn d s)) = sent s1 @ [channel_request s1 n dn d]"
  using assms
  by (simp add: create_channel_def create_try_eq print_def
           split: outcome.splits prod.splits sum.splits error.splits)

lemma create_channel_fail:
  assumes "ensure_token env s = (Inl e, s1)"
  shows "create_channel env n dn d s = (Inl e, s1)"
  using assms by (simp add: create_channel_def)

text \<open>
  C6. When \<open>login\<close> succeeds on a profile whose \<open>videoChannels\<close> is the list \<open>cs\<close>, with
  names that are pairwise different as dictionary keys, then \<open>cs\<close> has at least one
  channel, the default channel id is the \<open>id\<close> of the first channel of \<open>cs\<close>, and the
  cache has exactly one entry per channel of \<open>cs\<close>, in the listed order: its name with
  its id.
\<close>

theorem login_default_channel_and_cache:
  assumes "login_requests env s = (Inr user_data, s0)"
    and "login env s = (Inr (), s1)"
    and "py_getitem user_data ''videoChannels'' = Inr (JArr cs)"
    and "distinct (map channel_key cs)"
  shows "1 \<le> length cs \<and>
         py_getitem (hd cs) ''id'' = Inr (channel_id s1) \<and>
         length (channels s1) = length cs \<and>
         map (\<lambda>(k, i). (Inr k, Inr i)) (channels s1) = map (\<lambda>c. (channel_key c, py_getitem c ''id'')) cs"
proof -
  have lc: "login_channels user_data s0 = (Inr (), s1)"
    using assms(1,2) by (simp add: login_def)
  from login_channels_success[OF lc] assms(3)
  have cs: "cs \<noteq> []" "py_getitem (hd cs) ''id'' = Inr (channel_id s1)"
    and cd: "channel_dict cs [] = Inr (channels s1)"
    by auto
  from channel_dict_distinct[OF cd assms(4)]
  have m: "map (\<lambda>(k, i). (Inr k, Inr i)) (channels s1) = map (\<lambda>c. (channel_key c, py_getitem c ''id'')) cs"
    by simp
  from arg_cong[OF m, of length] have "length (channels s1) = length cs" by simp
  with cs m show ?thesis by (cases cs) auto
qed

theorem login_default_channel_and_cache_witness:
  "fst (login_requests example_env example_init) = Inr example_profile \<and>
   login example_env example_init = (Inr (), example_session) \<and>
   channel_id example_session = JNum 7 \<and>
   length (channels example_session) = 2 \<and>
   channels example_session = [(KStr ''main'', JNum 7), (KStr ''other'', JNum 9)]"
proof -
  have f: "fst (login_requests example_env example_init) = Inr example_profile"
    by code_simp
  have h1: "login_requests example_env example_init
              = (Inr example_profile, snd (login_requests example_env example_init))"
    using f by (simp add: prod_eq_iff)
  have h2: "login example_env example_init = (Inr (), example_session)"
    by (simp add: example_session_def) code_simp
  have h3: "py_getitem example_profile ''videoChannels''
              = Inr (JArr [example_channel ''main'' 7, example_channel ''other'' 9])"
    by code_simp
  have h4: "distinct (map channel_key [example_channel ''main'' 7, example_channel ''other'' 9])"
    by code_simp
  have k: "channel_key (example_channel ''main'' 7) = Inr (KStr ''main'')"
    "channel_key (example_channel ''other'' 9) = Inr (KStr ''other'')"
    "py_getitem (example_channel ''main'' 7) ''id'' = Inr (JNum 7)"
    "py_getitem (example_channel ''other'' 9) ''id'' = Inr (JNum 9)"
    by code_simp+
  from login_default_channel_and_cache[OF h1 h2 h3 h4] k
  have "channel_id example_session = JNum 7 \<and> length (channels example_session) = 2 \<and>
        map (\<lambda>(k, i). (Inr k :: error + key, Inr i :: error + json)) (channels example_session)
          = [(Inr (KStr ''main''), Inr (JNum 7)), (Inr (KStr ''other''), Inr (JNum 9))]"
    by simp
  then have "channel_id example_session = JNum 7 \<and> length (channels example_session) = 2 \<and>
        channels example_session = [(KStr ''main'', JNum 7), (KStr ''other'', JNum 9)]"
    by (auto simp: map_eq_Cons_conv)
  with f h2 show ?thesis by simp
qed

text \<open>
  C2, as the code has it. On a profile without \<open>videoChannels\<close>, or with an empty list
  of them, \<open>login\<close> raises the no-channels exception and leaves the default channel
  and the cache as they were. The \<open>access_token\<close> of the exchange stays stored in the
  session: when it is a non-empty value, the following operations do not authenticate
  again.
\<close>

theorem login_without_channels:
  assumes "login_requests env s = (Inr (JObj kvs), s0)"
    and "map_of (rev kvs) ''videoChannels'' = None \<or>
         map_of (rev kvs) ''videoChannels'' = Some (JArr [])"
  shows "login env s = (Inl NoVideoChannels, s0) \<and>
         channel_id s0 = channel_id s \<and> channels s0 = channels s \<and>
         (\<exists>form resp doc.
             http env (sent s @ [client_request s, token_request s form]) = Response resp \<and>
             json_body resp = Some doc \<and> py_getitem doc ''access_token'' = Inr (token s0)) \<and>
         (truthy (token s0) \<longrightarrow> ensure_token env s0 = (Inr (), s0))"
proof -
  have "login env s = login_channels (JObj kvs) s0"
    using assms(1) by (simp add: login_def)
  then have a: "login env s = (Inl NoVideoChannels, s0)"
    using login_channels_none[OF refl assms(2)] by simp
  have b: "channel_id s0 = channel_id s \<and> channels s0 = channels s"
    using login_requests_frame[OF assms(1)] by simp
  have c: "\<exists>form resp doc.
             http env (sent s @ [client_request s, token_request s form]) = Response resp \<and>
             json_body resp = Some doc \<and> py_getitem doc ''access_token'' = Inr (token s0)"
    using login_requests_sent[OF assms(1)] by auto
  from a b c show ?thesis by (simp add: ensure_token_def)
qed

theorem login_without_channels_witness:
  "fst (login_requests example_env_no_channels example_init)
     = Inr (JObj [(''username'', JStr ''u''), (''videoChannels'', JArr [])]) \<and>
   fst (login example_env_no_channels example_init) = Inl NoVideoChannels \<and>
   channels (snd (login example_env_no_channels example_init)) = [] \<and>
   token (snd (login example_env_no_channels example_init)) = JStr ''tok'' \<and>
   ensure_token example_env_no_channels (snd (login example_env_no_channels example_init))
     = (Inr (), snd (login example_env_no_channels example_init))"
proof -
  have f: "fst (login_requests example_env_no_channels example_init)
             = Inr (JObj [(''username'', JStr ''u''), (''videoChannels'', JArr [])])"
    by code_simp
  have h1: "login_requests example_env_no_channels example_init
              = (Inr (JObj [(''username'', JStr ''u''), (''videoChannels'', JArr [])]),
                 snd (login_requests example_env_no_channels example_init))"
    using f by (simp add: prod_eq_iff)
  have h2: "map_of (rev [(''username'', JStr ''u''), (''videoChannels'', JArr [])]) ''videoChannels'' = None \<or>
            map_of (rev [(''username'', JStr ''u''), (''videoChannels'', JArr [])]) ''videoChannels'' = Some (JArr [])"
    by simp
  have t: "token (snd (login_requests example_env_no_channels example_init)) = JStr ''tok''"
    by code_simp
  have c: "channels example_init = []" by code_simp
  from login_without_channels[OF h1 h2] f t c show ?thesis by simp
qed

text \<open>
  C2 as stated fails: after the failed login the session holds the token, and an
  upload on it goes through, where the same session without a token would
  authenticate again and fail.
\<close>

theorem login_without_channels_counterexample:
  "fst (login example_env_no_channels example_init) = Inl NoVideoChannels \<and>
   truthy (token (snd (login example_env_no_channels example_init))) \<and>
   fst (upload_video example_env_no_channels (example_args ''vids/a.mp4'')
          (snd (login example_env_no_channels example_init)))
     = Inr (JObj [(''video'', JStr ''a.mp4'')]) \<and>
   fst (upload_video example_env_no_channels (example_args ''vids/a.mp4'')
          ((snd (login example_env_no_channels example_init))\<lparr>token := JNull\<rparr>))
     = Inl NoVideoChannels"
  by code_simp

subsection \<open>What a single upload leaves in the logs\<close>

lemma upload_video_body_trace:
  "calls (snd (upload_video_body env a s)) = calls s \<and>
   (\<exists>ms. printed (snd (upload_video_body env a s)) = printed s @ ms \<and> filter is_ErrorUploading ms = [])"
proof (cases "ensure_token env s")
  case (Pair q s1)
  note f = ensure_token_frame[OF Pair]
  from ensure_token_printed[OF Pair] obtain ms where
    ms: "printed s1 = printed s @ ms" "filter is_ErrorUploading ms = []" by blast
  show ?thesis
  proof (cases q)
    case (Inl e)
    with Pair f ms show ?thesis
      by (simp add: upload_video_body_fail)
  next
    case (Inr u)
    with Pair have et: "ensure_token env s = (Inr (), s1)" by simp
    show ?thesis
    proof (cases "fs_open env (video_path a)")
      case False
      with et f ms show ?thesis by (simp add: upload_video_body_eq)
    next
      case True
      obtain r s3 where ut: "upload_try env a
                   (s1\<lparr>opened_files := opened_files s1 @ [video_path a],
                       printed := printed s1 @ [Uploading (Path_name (video_path a))]\<rparr>) = (r, s3)"
        by (cases "upload_try env a
                   (s1\<lparr>opened_files := opened_files s1 @ [video_path a],
                       printed := printed s1 @ [Uploading (Path_name (video_path a))]\<rparr>)")
      from ut have c3: "calls s3 = calls s1"
        and "\<exists>ms'. printed s3 = printed s1 @ Uploading (Path_name (video_path a)) # ms' \<and>
                   filter is_ErrorUploading ms' = []"
        by (auto simp: upload_try_eq split: outcome.splits if_splits)
      then obtain ms' where p3: "printed s3 = printed s1 @ Uploading (Path_name (video_path a)) # ms'"
        "filter is_ErrorUploading ms' = []" by blast
      show ?thesis
      proof (cases r)
        case (Inl e)
        from upload_except_frame[of e s3] obtain ms'' where
          "calls (upload_except e s3) = calls s3"
          "printed (upload_except e s3) = printed s3 @ ms''" "filter is_ErrorUploading ms'' = []"
          by blast
        with Inl True et ut c3 p3 ms f show ?thesis
          by (simp add: upload_video_body_eq)
      next
        case (Inr d)
        with True et ut c3 p3 ms f show ?thesis
          by (simp add: upload_video_body_eq)
      qed
    qed
  qed
qed

lemma upload_video_trace:
  assumes "upload_video env a s = (r, s')"
  shows "calls s' = calls s @ [(a, r)]"
    and "\<exists>ms. printed s' = printed s @ ms \<and> filter is_ErrorUploading ms = []"
  using assms upload_video_body_trace[of env a s]
  by (auto simp: upload_video_def split: prod.splits)

subsection \<open>Bulk upload\<close>

lemma recognised_iff: "recognised lw f \<longleftrightarrow> lw (Path_suffix f) \<in> set video_extensions"
  by (simp add: recognised_def video_extensions_def)

lemma bulk_loop_trace:
  assumes "bulk_loop env lw p n fs acc s = (res, s')"
  shows "\<exists>cs ms. calls s' = calls s @ cs \<and> printed s' = printed s @ ms \<and>
           res = acc @ successes cs \<and>
           filter is_ErrorUploading ms = failure_reports cs \<and>
           map fst cs = map (\<lambda>f. bulk_args f p n) (filter (recognised lw) fs)"
  using assms
proof (induction fs arbitrary: acc s)
  case Nil
  then show ?case by simp
next
  case (Cons f fs)
  show ?case
  proof (cases "recognised lw f")
    case False
    with Cons.prems have "bulk_loop env lw p n fs acc s = (res, s')"
      by (simp add: recognised_iff)
    from Cons.IH[OF this] False show ?thesis by simp
  next
    case True
    obtain r s1 where up: "upload_video env (bulk_args f p n) s = (r, s1)"
      by (cases "upload_video env (bulk_args f p n) s")
    from upload_video_trace[OF up] obtain ms1 where
      c1: "calls s1 = calls s @ [(bulk_args f p n, r)]"
      and p1: "printed s1 = printed s @ ms1" "filter is_ErrorUploading ms1 = []"
      by blast
    show ?thesis
    proof (cases r)
      case (Inr d)
      with Cons.prems True up
      have "bulk_loop env lw p n fs (acc @ [d]) (s1\<lparr>slept := slept s1 + 2\<rparr>) = (res, s')"
        by (simp add: recognised_iff)
      from Cons.IH[OF this] obtain cs ms where
        "calls s' = calls s1 @ cs" "printed s' = printed s1 @ ms" "res = (acc @ [d]) @ successes cs"
        "filter is_ErrorUploading ms = failure_reports cs"
        "map fst cs = map (\<lambda>f. bulk_args f p n) (filter (recognised lw) fs)"
        by auto
      with c1 p1 Inr True
      have "calls s' = calls s @ ((bulk_args f p n, r) # cs) \<and> printed s' = printed s @ (ms1 @ ms) \<and>
            res = acc @ successes ((bulk_args f p n, r) # cs) \<and>
            filter is_ErrorUploading (ms1 @ ms) = failure_reports ((bulk_args f p n, r) # cs) \<and>
            map fst ((bulk_args f p n, r) # cs) = map (\<lambda>f. bulk_args f p n) (filter (recognised lw) (f # fs))"
        by simp
      then show ?thesis by blast
    next
      case (Inl e)
      with Cons.prems True up
      have "bulk_loop env lw p n fs acc (print (ErrorUploading (Path_name f) e) s1) = (res, s')"
        by (simp add: recognised_iff)
      from Cons.IH[OF this] obtain cs ms where
        "calls s' = calls s1 @ cs" "printed s' = printed s1 @ [ErrorUploading (Path_name f) e] @ ms"
        "res = acc @ successes cs"
        "filter is_ErrorUploading ms = failure_reports cs"
        "map fst cs = map (\<lambda>f. bulk_args f p n) (filter (recognised lw) fs)"
        by (auto simp: print_def)
      with c1 p1 Inl True
      have "calls s' = calls s @ ((bulk_args f p n, r) # cs) \<and>
            printed s' = printed s @ (ms1 @ [ErrorUploading (Path_name f) e] @ ms) \<and>
            res = acc @ successes ((bulk_args f p n, r) # cs) \<and>
            filter is_ErrorUploading (ms1 @ [ErrorUploading (Path_name f) e] @ ms)
              = failure_reports ((bulk_args f p n, r) # cs) \<and>
            map fst ((bulk_args f p n, r) # cs) = map (\<lambda>f. bulk_args f p n) (filter (recognised lw) (f # fs))"
        by (simp add: bulk_args_def)
      then show ?thesis by blast
    qed
  qed
qed

lemma bulk_loop_filter:
  "bulk_loop env lw p n (filter (recognised lw) fs) acc s = bulk_loop env lw p n fs acc s"
  by (induction fs arbitrary: acc s) (auto simp: recognised_iff split: prod.splits sum.splits)

text \<open>
  C3. \<open>bulk_upload\<close> on a directory that can be listed returns a list and raises
  nothing, whatever the single uploads do. Every recognised file of the listing is
  passed to \<open>upload_video\<close>, in listing order, those after a failed upload included.
  The list returned holds the documents of the calls that returned, in that order,
  and nothing for the calls that raised; for each of these the loop prints one
  \<open>Error uploading\<close> line with the name of the file and the error.
\<close>

theorem bulk_upload_continues_after_failure:
  assumes "iterdir env video_dir = Some entries"
    and "bulk_upload env lw video_dir p n s = (r, s')"
  shows "r = Inr (successes (drop (length (calls s)) (calls s'))) \<and>
         map (\<lambda>c. video_path (fst c)) (drop (length (calls s)) (calls s')) = filter (recognised lw) entries \<and>
         filter is_ErrorUploading (drop (length (printed s)) (printed s'))
           = failure_reports (drop (length (calls s)) (calls s'))"
proof -
  obtain res where bl: "bulk_loop env lw p n entries [] s = (res, s')" and r: "r = Inr res"
    using assms by (auto simp: bulk_upload_def split: prod.splits)
  from bulk_loop_trace[OF bl] obtain cs ms where
    t: "calls s' = calls s @ cs" "printed s' = printed s @ ms" "res = successes cs"
       "filter is_ErrorUploading ms = failure_reports cs"
       "map fst cs = map (\<lambda>f. bulk_args f p n) (filter (recognised lw) entries)"
    by auto
  have "map (\<lambda>c. video_path (fst c)) cs = map video_path (map fst cs)"
    by simp
  also have "\<dots> = filter (recognised lw) entries"
    unfolding t(5) by (simp add: bulk_args_def comp_def)
  finally show ?thesis using t r by simp
qed

theorem bulk_upload_continues_after_failure_witness:
  "iterdir example_env ''three'' = Some [''three/1.mp4'', ''three/2.mp4'', ''three/3.mp4''] \<and>
   fst (upload_video example_env (example_args ''three/2.mp4'') example_session) = Inl FileTooLarge \<and>
   fst (bulk_upload example_env example_lower ''three'' 1 (Some ''other'') example_init)
     = Inr [JObj [(''video'', JStr ''1.mp4'')], JObj [(''video'', JStr ''3.mp4'')]] \<and>
   filter is_ErrorUploading (printed (snd (bulk_upload example_env example_lower ''three'' 1 (Some ''other'') example_init)))
     = [ErrorUploading ''2.mp4'' FileTooLarge]"
proof -
  have h1: "iterdir example_env ''three'' = Some [''three/1.mp4'', ''three/2.mp4'', ''three/3.mp4'']"
    by code_simp
  have h2: "bulk_upload example_env example_lower ''three'' 1 (Some ''other'') example_init
             = (fst (bulk_upload example_env example_lower ''three'' 1 (Some ''other'') example_init),
                snd (bulk_upload example_env example_lower ''three'' 1 (Some ''other'') example_init))"
    by simp
  have u: "fst (upload_video example_env (example_args ''three/2.mp4'') example_session) = Inl FileTooLarge"
    by code_simp
  have c: "map snd (calls (snd (bulk_upload example_env example_lower ''three'' 1 (Some ''other'') example_init)))
             = [Inr (JObj [(''video'', JStr ''1.mp4'')]), Inl FileTooLarge, Inr (JObj [(''video'', JStr ''3.mp4'')])]"
    by code_simp
  have i: "calls example_init = []" "printed example_init = []"
    by code_simp+
  from bulk_upload_continues_after_failure[OF h1 h2]
  have a: "fst (bulk_upload example_env example_lower ''three'' 1 (Some ''other'') example_init)
             = Inr (successes (calls (snd (bulk_upload example_env example_lower ''three'' 1 (Some ''other'') example_init))))"
    and b: "map (\<lambda>c. video_path (fst c)) (calls (snd (bulk_upload example_env example_lower ''three'' 1 (Some ''other'') example_init)))
             = filter (recognised example_lower) [''three/1.mp4'', ''three/2.mp4'', ''three/3.mp4'']"
    and d: "filter is_ErrorUploading (printed (snd (bulk_upload example_env example_lower ''three'' 1 (Some ''other'') example_init)))
             = failure_reports (calls (snd (bulk_upload example_env example_lower ''three'' 1 (Some ''other'') example_init)))"
    using i by simp_all
  have r: "filter (recognised example_lower) [''three/1.mp4'', ''three/2.mp4'', ''three/3.mp4'']
             = [''three/1.mp4'', ''three/2.mp4'', ''three/3.mp4'']"
    by code_simp
  from b r c obtain a1 a2 a3 where
    cs: "calls (snd (bulk_upload example_env example_lower ''three'' 1 (Some ''other'') example_init))
           = [(a1, Inr (JObj [(''video'', JStr ''1.mp4'')])), (a2, Inl FileTooLarge),
              (a3, Inr (JObj [(''video'', JStr ''3.mp4'')]))]"
      and "video_path a2 = ''three/2.mp4''"
    by (auto simp: map_eq_Cons_conv)
  moreover have "Path_name ''three/2.mp4'' = ''2.mp4''" by code_simp
  ultimately show ?thesis using a d h1 u by simp
qed

lemma bulk_loop_publish_all:
  "bulk_loop env lw p n fs acc s = publish_all env p n (filter (recognised lw) fs) acc s"
  by (induction fs arbitrary: acc s)
     (auto simp: recognised_iff bulk_args_def print_def split: prod.splits sum.splits)

text \<open>
  C8. On a directory that can be listed, \<open>bulk_upload\<close> does what the bulk publisher of
  the specification does on the entries whose suffix, put in lower case by
  \<open>str.lower\<close>, is \<open>.mp4\<close>, \<open>.webm\<close> or \<open>.mkv\<close>, taken in listing order: the same result,
  never an exception, and the same state, that is the same requests sent, lines
  printed, files opened and pauses. Each of these entries, and no other, goes to
  \<open>upload_video\<close>, with the given privacy and channel name, no title, no description
  and \<open>wait_transcoding\<close> set; the other entries leave no trace.
\<close>

theorem bulk_upload_selects_video_files:
  assumes "iterdir env video_dir = Some entries"
  shows "bulk_upload env str_lower video_dir p n s =
           (case publish_all env p n
                   (filter (\<lambda>f. str_lower (Path_suffix f) \<in> {''.mp4'', ''.webm'', ''.mkv''}) entries) [] s of
              (res, s') \<Rightarrow> (Inr res, s')) \<and>
         map fst (drop (length (calls s)) (calls (snd (bulk_upload env str_lower video_dir p n s))))
           = map (\<lambda>f. \<lparr>video_path = f, title = None, description = None, privacy = p,
                        channel_name = n, wait_transcoding = True\<rparr>)
                 (filter (\<lambda>f. str_lower (Path_suffix f) \<in> {''.mp4'', ''.webm'', ''.mkv''}) entries)"
proof -
  have rec: "recognised str_lower = (\<lambda>f. str_lower (Path_suffix f) \<in> {''.mp4'', ''.webm'', ''.mkv''})"
    by (rule ext) (simp add: recognised_def)
  obtain res s' where bl: "bulk_loop env str_lower p n entries [] s = (res, s')"
    by (cases "bulk_loop env str_lower p n entries [] s")
  then have bu: "bulk_upload env str_lower video_dir p n s = (Inr res, s')"
    using assms by (simp add: bulk_upload_def)
  from bulk_loop_trace[OF bl] obtain cs where
    "calls s' = calls s @ cs"
    "map fst cs = map (\<lambda>f. bulk_args f p n) (filter (recognised str_lower) entries)"
    by auto
  moreover have "publish_all env p n (filter (recognised str_lower) entries) [] s = (res, s')"
    using bl by (simp add: bulk_loop_publish_all)
  ultimately show ?thesis using bu
    by (simp add: bulk_args_def rec)
qed

theorem bulk_upload_selects_video_files_witness:
  "iterdir example_env ''vids'' = Some [''vids/a.mp4'', ''vids/b.txt'', ''vids/c.MKV'', ''vids/d.webm''] \<and>
   fst (bulk_upload example_env example_lower ''vids'' 1 None example_init)
     = Inr [JObj [(''video'', JStr ''a.mp4'')], JObj [(''video'', JStr ''c.MKV'')],
            JObj [(''video'', JStr ''d.webm'')]] \<and>
   uploads_sent (sent (snd (bulk_upload example_env example_lower ''vids'' 1 None example_init)))
     = [(''vids/a.mp4'', Some (JBool True)), (''vids/c.MKV'', Some (JBool True)),
        (''vids/d.webm'', Some (JBool True))] \<and>
   uploads_sent (sent (snd (bulk_upload example_env_kelvin example_lower ''k'' 1 None example_init)))
     = [(''k/e'' @ kelvin_suffix, Some (JBool True))]"
proof -
  have h1: "iterdir example_env ''vids'' = Some [''vids/a.mp4'', ''vids/b.txt'', ''vids/c.MKV'', ''vids/d.webm'']"
    by code_simp
  have h2: "iterdir example_env_kelvin ''k'' = Some [''k/e'' @ kelvin_suffix, ''k/f.txt'']"
    by code_simp
  have f1: "filter (\<lambda>f. example_lower (Path_suffix f) \<in> {''.mp4'', ''.webm'', ''.mkv''})
             [''vids/a.mp4'', ''vids/b.txt'', ''vids/c.MKV'', ''vids/d.webm'']
           = [''vids/a.mp4'', ''vids/c.MKV'', ''vids/d.webm'']"
    by code_simp
  have f2: "filter (\<lambda>f. example_lower (Path_suffix f) \<in> {''.mp4'', ''.webm'', ''.mkv''})
             [''k/e'' @ kelvin_suffix, ''k/f.txt'']
           = [''k/e'' @ kelvin_suffix]"
    by code_simp
  have p1: "fst (publish_all example_env 1 None [''vids/a.mp4'', ''vids/c.MKV'', ''vids/d.webm''] [] example_init)
              = [JObj [(''video'', JStr ''a.mp4'')], JObj [(''video'', JStr ''c.MKV'')],
                 JObj [(''video'', JStr ''d.webm'')]]"
    "uploads_sent (sent (snd (publish_all example_env 1 None
        [''vids/a.mp4'', ''vids/c.MKV'', ''vids/d.webm''] [] example_init)))
      = [(''vids/a.mp4'', Some (JBool True)), (''vids/c.MKV'', Some (JBool True)),
         (''vids/d.webm'', Some (JBool True))]"
    by code_simp+
  have p2: "uploads_sent (sent (snd (publish_all example_env_kelvin 1 None [''k/e'' @ kelvin_suffix] [] example_init)))
      = [(''k/e'' @ kelvin_suffix, Some (JBool True))]"
    by code_simp
  from bulk_upload_selects_video_files[OF h1, of example_lower 1 None example_init]
  have a: "bulk_upload example_env example_lower ''vids'' 1 None example_init =
           (case publish_all example_env 1 None [''vids/a.mp4'', ''vids/c.MKV'', ''vids/d.webm''] [] example_init of
              (res, s') \<Rightarrow> (Inr res, s'))"
    unfolding f1 by simp
  from bulk_upload_selects_video_files[OF h2, of example_lower 1 None example_init]
  have b: "bulk_upload example_env_kelvin example_lower ''k'' 1 None example_init =
           (case publish_all example_env_kelvin 1 None [''k/e'' @ kelvin_suffix] [] example_init of
              (res, s') \<Rightarrow> (Inr res, s'))"
    unfolding f2 by simp
  from a b p1 p2 h1 show ?thesis
    by (simp add: split_beta)
qed

subsection \<open>Channel creation and the cache\<close>

text \<open>
  C4, as the code has it. When the service answers the create-channel request with
  status 409, the operation returns a value instead of raising, and the handling of
  the conflict adds and overwrites nothing: the cache is the one the session had when
  the request went out. That is the cache of the call's start when the session held
  a token; on a session without one the call began with a \<open>login\<close>, and the cache is
  the one that \<open>login\<close> stored. With any other status from 400 to 599 the \<open>HTTPError\<close>
  reaches the caller, the cache the same again.
\<close>

theorem create_channel_conflict_keeps_cache:
  assumes "ensure_token env s = (Inr (), s1)"
    and "http env (sent s1 @ [channel_request s1 n dn d]) = Response r"
    and "400 \<le> status_code r" and "status_code r < 600"
  shows "(status_code r = 409 \<longrightarrow>
            (\<exists>v. fst (create_channel env n dn d s) = Inr v) \<and>
            channels (snd (create_channel env n dn d s)) = channels s1 \<and>
            (truthy (token s) \<longrightarrow> channels (snd (create_channel env n dn d s)) = channels s) \<and>
            (\<not> truthy (token s) \<longrightarrow> login env s = (Inr (), s1))) \<and>
         (status_code r \<noteq> 409 \<longrightarrow>
            fst (create_channel env n dn d s) = Inl (HTTPError r) \<and>
            channels (snd (create_channel env n dn d s)) = channels s1)"
proof -
  have "truthy (token s) \<Longrightarrow> s1 = s" and "\<not> truthy (token s) \<Longrightarrow> login env s = (Inr (), s1)"
    using assms(1) by (simp_all add: ensure_token_def)
  then show ?thesis
    using create_channel_http_error[OF assms] by auto
qed

theorem create_channel_conflict_keeps_cache_witness:
  "(fst (create_channel example_env ''main'' None None example_session) = Inr JNull \<and>
    channels (snd (create_channel example_env ''main'' None None example_session))
      = [(KStr ''main'', JNum 7), (KStr ''other'', JNum 9)] \<and>
    channels example_session = [(KStr ''main'', JNum 7), (KStr ''other'', JNum 9)]) \<and>
   fst (create_channel example_env_forbidden ''x'' None None example_session)
      = Inl (HTTPError (error_response 403 ''forbidden'')) \<and>
   (\<not> truthy (token example_init) \<and>
    login example_env example_init = (Inr (), example_session) \<and>
    channels (snd (create_channel example_env ''main'' None None example_init)) = channels example_session)"
proof -
  have t: "truthy (token example_session)" by code_simp
  have e1: "ensure_token example_env example_session = (Inr (), example_session)"
    using t by (rule ensure_token_held)
  have e2: "ensure_token example_env_forbidden example_session = (Inr (), example_session)"
    using t by (rule ensure_token_held)
  have t0: "\<not> truthy (token example_init)" by code_simp
  have e3: "ensure_token example_env example_init = (Inr (), example_session)"
    by (simp add: example_session_def) code_simp
  have r1: "http example_env (sent example_session @ [channel_request example_session ''main'' None None])
              = Response \<lparr>status_code = 409, body_text = ''conflict'', json_body = Some (example_channel ''main'' 7)\<rparr>"
    by code_simp
  have r2: "http example_env_forbidden (sent example_session @ [channel_request example_session ''x'' None None])
              = Response (error_response 403 ''forbidden'')"
    by code_simp
  have c: "channels example_session = [(KStr ''main'', JNum 7), (KStr ''other'', JNum 9)]"
    by code_simp
  have v: "fst (create_channel example_env ''main'' None None example_session) = Inr JNull"
    by code_simp
  from create_channel_conflict_keeps_cache[OF e1 r1] create_channel_conflict_keeps_cache[OF e2 r2]
       create_channel_conflict_keeps_cache[OF e3 r1] t t0 c v
  show ?thesis by (simp add: error_response_def)
qed

text \<open>
  C4 as stated fails: on a session without a token the call that is answered 409
  leaves a cache that differs from the one it started with, the name of the conflict
  now in it, put there by the login the call began with.
\<close>

theorem create_channel_conflict_keeps_cache_counterexample:
  "channels example_init = [] \<and>
   fst (create_channel example_env ''main'' None None example_init) = Inr JNull \<and>
   channels (snd (create_channel example_env ''main'' None None example_init))
     = [(KStr ''main'', JNum 7), (KStr ''other'', JNum 9)] \<and>
   channels (snd (create_channel example_env ''main'' None None example_init)) \<noteq> channels example_init"
  by code_simp

subsection \<open>Authentication on demand\<close>

lemma upload_except_token: "token (upload_except e s) = token s"
  by (cases e) (simp_all add: upload_except_def print_def Let_def)

lemma upload_video_token:
  assumes "ensure_token env s = (Inr (), s1)"
  shows "token (snd (upload_video env a s)) = token s1"
  using assms
  by (simp add: upload_video_def upload_video_body_eq upload_try_eq upload_except_token
           split: outcome.splits prod.splits sum.splits)

text \<open>
  C1, as the code has it. On a session that holds no token, \<open>upload_video\<close> and
  \<open>create_channel\<close> begin with one run of \<open>login\<close>, whose requests are an initial part of
  the sequence client credentials, token exchange, profile. When that run raises, the
  operation raises the same error and issues no request of its own. When it returns,
  all three requests were issued and the operation goes on: the only further request
  is the upload request (when the file could be opened), respectively the
  create-channel request. The token stored in the session, and carried by that
  request as its bearer, is whatever value the exchange answered as \<open>access_token\<close>.
\<close>

theorem authentication_on_demand:
  assumes "\<not> truthy (token s)"
    and "login env s = (r, s1)"
  shows "\<exists>form k. 1 \<le> k \<and> k \<le> (3::nat) \<and> sent s1 = sent s @ take k (auth_sequence s form s1) \<and>
     (\<forall>e. r = Inl e \<longrightarrow>
         fst (upload_video env a s) = Inl e \<and> sent (snd (upload_video env a s)) = sent s1 \<and>
         create_channel env n dn d s = (Inl e, s1)) \<and>
     (r = Inr () \<longrightarrow> k = 3 \<and>
         (\<exists>resp doc tok.
             http env (sent s @ take 2 (auth_sequence s form s1)) = Response resp \<and>
             json_body resp = Some doc \<and> py_getitem doc ''access_token'' = Inr tok \<and>
             token s1 = tok \<and> token (snd (upload_video env a s)) = tok \<and>
             (\<forall>rq\<in>set (drop (length (sent s1)) (sent (snd (upload_video env a s)))).
                 rq = upload_request s1 a \<and> bearer rq = Some tok) \<and>
             (\<forall>rq\<in>set (drop (length (sent s1)) (sent (snd (create_channel env n dn d s)))).
                 rq = channel_request s1 n dn d \<and> bearer rq = Some tok)) \<and>
         sent (snd (upload_video env a s)) =
           sent s1 @ (if fs_open env (video_path a) then [upload_request s1 a] else []) \<and>
         sent (snd (create_channel env n dn d s)) = sent s1 @ [channel_request s1 n dn d])"
proof -
  have et: "ensure_token env s = (r, s1)"
    using assms by (simp add: ensure_token_def)
  have fail: "fst (upload_video env a s) = Inl e \<and> sent (snd (upload_video env a s)) = sent s1 \<and>
              create_channel env n dn d s = (Inl e, s1)" if "r = Inl e" for e
    using et that by (simp add: upload_video_def upload_video_body_fail create_channel_fail)
  have ok: "sent (snd (upload_video env a s)) =
              sent s1 @ (if fs_open env (video_path a) then [upload_request s1 a] else []) \<and>
            sent (snd (create_channel env n dn d s)) = sent s1 @ [channel_request s1 n dn d] \<and>
            token (snd (upload_video env a s)) = token s1 \<and>
            (\<forall>rq\<in>set (drop (length (sent s1)) (sent (snd (upload_video env a s)))).
                 rq = upload_request s1 a \<and> bearer rq = Some (token s1)) \<and>
            (\<forall>rq\<in>set (drop (length (sent s1)) (sent (snd (create_channel env n dn d s)))).
                 rq = channel_request s1 n dn d \<and> bearer rq = Some (token s1))" if "r = Inr ()"
    using et that upload_video_sent[of env s s1 a] create_channel_sent[of env s s1 n dn d]
      upload_video_token[of env s s1 a]
    by (simp add: upload_request_def channel_request_def)
  from login_sent[OF assms(2)] consider
      (client) e where "r = Inl e" "sent s1 = sent s @ [client_request s]"
    | (exchange) e form where "r = Inl e" "sent s1 = sent s @ [client_request s, token_request s form]"
    | (profile) form resp doc where "sent s1 = sent s @ auth_sequence s form s1"
        "http env (sent s @ [client_request s, token_request s form]) = Response resp"
        "json_body resp = Some doc" "py_getitem doc ''access_token'' = Inr (token s1)"
    by blast
  then show ?thesis
  proof cases
    case client
    have "1 \<le> (1::nat) \<and> (1::nat) \<le> 3 \<and> sent s1 = sent s @ take 1 (auth_sequence s [] s1)"
      using client by (simp add: auth_sequence_def)
    with client(1) fail show ?thesis by blast
  next
    case exchange
    have "1 \<le> (2::nat) \<and> (2::nat) \<le> 3 \<and> sent s1 = sent s @ take 2 (auth_sequence s form s1)"
      using exchange by (simp add: auth_sequence_def)
    with exchange(1) fail show ?thesis by blast
  next
    case profile
    have p: "1 \<le> (3::nat) \<and> (3::nat) \<le> 3 \<and> sent s1 = sent s @ take 3 (auth_sequence s form s1)"
      and q: "http env (sent s @ take 2 (auth_sequence s form s1)) = Response resp"
      using profile by (auto simp: auth_sequence_def)
    show ?thesis
    proof (cases r)
      case (Inl e)
      with p fail show ?thesis by blast
    next
      case (Inr u)
      then have r: "r = Inr ()" by simp
      from ok[OF r] q profile(3,4)
      have "\<exists>resp doc tok.
             http env (sent s @ take 2 (auth_sequence s form s1)) = Response resp \<and>
             json_body resp = Some doc \<and> py_getitem doc ''access_token'' = Inr tok \<and>
             token s1 = tok \<and> token (snd (upload_video env a s)) = tok \<and>
             (\<forall>rq\<in>set (drop (length (sent s1)) (sent (snd (upload_video env a s)))).
                 rq = upload_request s1 a \<and> bearer rq = Some tok) \<and>
             (\<forall>rq\<in>set (drop (length (sent s1)) (sent (snd (create_channel env n dn d s)))).
                 rq = channel_request s1 n dn d \<and> bearer rq = Some tok)"
        by blast
      with p r ok[OF r] show ?thesis by blast
    qed
  qed
qed

theorem authentication_on_demand_witness:
  "\<not> truthy (token example_init) \<and>
   login example_env example_init = (Inr (), example_session) \<and>
   sent (snd (upload_video example_env (example_args ''vids/a.mp4'') example_init))
     = sent example_session @ [upload_request example_session (example_args ''vids/a.mp4'')] \<and>
   sent (snd (create_channel example_env ''main'' None None example_init))
     = sent example_session @ [channel_request example_session ''main'' None None] \<and>
   bearer (upload_request example_session (example_args ''vids/a.mp4'')) = Some (JStr ''tok'') \<and>
   fst (login example_env_no_channels example_init) = Inl NoVideoChannels \<and>
   fst (upload_video example_env_no_channels (example_args ''vids/a.mp4'') example_init) = Inl NoVideoChannels \<and>
   fst (create_channel example_env_no_channels ''main'' None None example_init) = Inl NoVideoChannels"
proof -
  have h1: "\<not> truthy (token example_init)" by code_simp
  have h2: "login example_env example_init = (Inr (), example_session)"
    by (simp add: example_session_def) code_simp
  have f: "fst (login example_env_no_channels example_init) = Inl NoVideoChannels"
    by code_simp
  have h3: "login example_env_no_channels example_init
              = (Inl NoVideoChannels, snd (login example_env_no_channels example_init))"
    using f by (simp add: prod_eq_iff)
  have o: "fs_open example_env (video_path (example_args ''vids/a.mp4''))"
    by code_simp
  have t: "bearer (upload_request example_session (example_args ''vids/a.mp4'')) = Some (JStr ''tok'')"
    by code_simp
  from authentication_on_demand[OF h1 h2, of "example_args ''vids/a.mp4''" "''main''" None None]
  obtain form k where
    "Inr () = (Inr () :: error + unit) \<longrightarrow> k = 3 \<and>
       (\<exists>resp doc tok.
             http example_env (sent example_init @ take 2 (auth_sequence example_init form example_session))
               = Response resp \<and>
             json_body resp = Some doc \<and> py_getitem doc ''access_token'' = Inr tok \<and>
             token example_session = tok \<and>
             token (snd (upload_video example_env (example_args ''vids/a.mp4'') example_init)) = tok \<and>
             (\<forall>rq\<in>set (drop (length (sent example_session))
                   (sent (snd (upload_video example_env (example_args ''vids/a.mp4'') example_init)))).
                 rq = upload_request example_session (example_args ''vids/a.mp4'') \<and> bearer rq = Some tok) \<and>
             (\<forall>rq\<in>set (drop (length (sent example_session))
                   (sent (snd (create_channel example_env ''main'' None None example_init)))).
                 rq = channel_request example_session ''main'' None None \<and> bearer rq = Some tok)) \<and>
       sent (snd (upload_video example_env (example_args ''vids/a.mp4'') example_init)) =
           sent example_session @
           (if fs_open example_env (video_path (example_args ''vids/a.mp4''))
            then [upload_request example_session (example_args ''vids/a.mp4'')] else []) \<and>
       sent (snd (create_channel example_env ''main'' None None example_init))
         = sent example_session @ [channel_request example_session ''main'' None None]"
    by blast
  then have a: "sent (snd (upload_video example_env (example_args ''vids/a.mp4'') example_init))
             = sent example_session @ [upload_request example_session (example_args ''vids/a.mp4'')]"
    and a': "sent (snd (create_channel example_env ''main'' None None example_init))
             = sent example_session @ [channel_request example_session ''main'' None None]"
    using o by simp_all
  from authentication_on_demand[OF h1 h3, of "example_args ''vids/a.mp4''" "''main''" None None]
  obtain form' k' where
    "\<forall>e. Inl NoVideoChannels = (Inl e :: error + unit) \<longrightarrow>
         fst (upload_video example_env_no_channels (example_args ''vids/a.mp4'') example_init) = Inl e \<and>
         sent (snd (upload_video example_env_no_channels (example_args ''vids/a.mp4'') example_init))
           = sent (snd (login example_env_no_channels example_init)) \<and>
         create_channel example_env_no_channels ''main'' None None example_init
           = (Inl e, snd (login example_env_no_channels example_init))"
    by blast
  then have b: "fst (upload_video example_env_no_channels (example_args ''vids/a.mp4'') example_init) = Inl NoVideoChannels"
    and b': "fst (create_channel example_env_no_channels ''main'' None None example_init) = Inl NoVideoChannels"
    by simp_all
  from h1 h2 f a a' t b b' show ?thesis by simp
qed

text \<open>
  C1 as stated fails in its last part: when the exchange answers a null
  \<open>access_token\<close>, the login returns, the session is left without a token, and the
  upload request goes out all the same, its bearer the null value.
\<close>

theorem authentication_on_demand_counterexample:
  "\<not> truthy (token example_init) \<and>
   fst (login example_env_null_token example_init) = Inr () \<and>
   token (snd (login example_env_null_token example_init)) = JNull \<and>
   fst (upload_video example_env_null_token (example_args ''vids/a.mp4'') example_init)
     = Inr (JObj [(''video'', JStr ''a.mp4'')]) \<and>
   map bearer (drop 3 (sent (snd (upload_video example_env_null_token (example_args ''vids/a.mp4'') example_init))))
     = [Some JNull] \<and>
   uploads_sent (sent (snd (upload_video example_env_null_token (example_args ''vids/a.mp4'') example_init)))
     = [(''vids/a.mp4'', Some (JBool True))] \<and>
   \<not> truthy (token (snd (upload_video example_env_null_token (example_args ''vids/a.mp4'') example_init)))"
  by code_simp

end
